theory Spec2Isabelle
  imports Main "HOL-Library.AList"
begin

section \<open>SparkMonitor: the engine of src/js/SparkMonitor.js\<close>

text \<open>
  The class \<open>SparkMonitor\<close> keeps one \<open>CellMonitor\<close> per notebook cell and hands the
  Spark listener events it receives from the kernel to the monitor of the cell that
  started the job. The model is a state record for the fields of \<open>this\<close>, one HOL
  function per method, and a completion value for the way a method ends (it returns, or
  a \<open>TypeError\<close> leaves it with the state reached so far).

  Conventions of the model.
  \<^item> A cell is represented by its \<open>id\<close> field, the only part of it the class reads or
    writes. \<open>null\<close> is \<open>None\<close>.
  \<^item> \<open>this.cellmonitors\<close> is a plain object. Its own properties are an association
    list in insertion order (the order \<open>Object.keys\<close> enumerates; cell ids are taken not
    to be integer-like) from cell ids to the addresses of monitor objects; the objects
    live in \<open>heap\<close>, so that a local variable holding a monitor and the dictionary
    entry are the same object. Reading \<open>this.cellmonitors[id]\<close> finds an own property,
    or else a member inherited from \<open>Object.prototype\<close>, or else \<open>undefined\<close>.
  \<^item> \<open>this.data\<close> maps a key string to the \<open>cell_id\<close> of the stored object; its keys
    start with \<open>app\<close>, so none of them is a name inherited from \<open>Object.prototype\<close>.
  \<^item> Numbers are the integers the listener sends (inside the range where JavaScript
    numbers are exact).
  \<^item> \<open>trace\<close> records, in order, every call the class makes on the console and on a
    monitor; it is how "logs an error" and "forwards to the monitor" are observed.
  \<^item> A message is taken after \<open>JSON.parse\<close> has succeeded. The methods of a monitor
    and of the console return normally and do not call back into the \<open>SparkMonitor\<close>.
  \<^item> \<open>comm\<close>, \<open>kernel\<close>, \<open>nbPanel\<close> and the unused \<open>this.activeCell\<close> are left out,
    and with them \<open>send\<close>, \<open>onCommClose\<close> and what \<open>startComm\<close> does to the channel:
    no method modelled here reads them. Of \<open>startComm\<close> the constructor keeps the one
    log line written before it returns; the two others are written later, from a timer
    and from a promise callback.
\<close>

subsection \<open>Event payloads\<close>

text \<open>
  The object \<open>JSON.parse(msg.content.data.msg)\<close> yields; one record for all event
  kinds, each handler reading the fields of its kind.
\<close>

record sparkdata =
  data_msgtype :: string
  data_jobId :: nat
  data_stageId :: nat
  data_totalCores :: int
  data_numExecutors :: int
  data_appId :: string
  data_appName :: string
  data_appAttemptId :: string

text \<open>
  A message of the comm channel: \<open>msg.content.data.msgtype\<close> (the empty string when the
  field is missing) and the parsed \<open>msg.content.data.msg\<close>.
\<close>

record message =
  msgtype :: string
  msg :: sparkdata

subsection \<open>Collaborators whose source is not part of src/\<close>

text \<open>
  The listener object \<open>CurrentCell\<close> (\<open>./CurrentCell\<close>): the three values its getters
  \<open>getActiveCell()\<close>, \<open>getNumCellsExecuted()\<close> and \<open>getCellReexecuted()\<close> return. The
  host changes them between events; the class itself only writes the id of the active
  cell.
\<close>

record CurrentCell =
  activeCell :: "string option"
  numCellsExecuted :: nat
  cellReexecuted :: bool

text \<open>
  The class \<open>CellMonitor\<close> (\<open>./CellMonitor\<close>) is a parameter of every method that
  touches a monitor: its constructor (from the cell id), \<open>removeDisplay()\<close>, the
  attribute \<open>displayVisible\<close>, and its event methods as one function of the method called
  and the payload, all acting on the monitor's own state \<open>'m\<close>.
\<close>

datatype callback =
    JobStart | JobEnd | StageSubmitted | StageCompleted
  | TaskStart | TaskEnd | ExecutorAdded | ExecutorRemoved

record 'm CellMonitor =
  new_CellMonitor :: "string \<Rightarrow> 'm"
  removeDisplay :: "'m \<Rightarrow> 'm"
  displayVisible :: "'m \<Rightarrow> bool"
  on_event :: "callback \<Rightarrow> sparkdata \<Rightarrow> 'm \<Rightarrow> 'm"

subsection \<open>The state of a SparkMonitor\<close>

datatype mode = shown | hidden

datatype action =
    console_log string
  | console_warn string
  | console_error string
  | Constructed nat string
  | RemoveDisplay nat
  | Forward nat callback sparkdata

record 'm SparkMonitor =
  listener :: CurrentCell
  cellmonitors :: "(string \<times> nat) list"
  heap :: "'m list"
  cellExecCountSinceSparkJobStart :: nat
  data :: "string \<rightharpoonup> string"
  appName :: string
  appId :: string
  appAttemptId :: "string option"
  app :: string
  totalCores :: int
  numExecutors :: int
  display_mode :: mode
  trace :: "action list"

datatype error = TypeError

datatype 's completion = Returns 's | Throws error 's

text \<open>
  The constructor, given the listener it creates; \<open>startComm\<close> writes its first log line
  before the constructor returns.
\<close>

definition constructor :: "CurrentCell \<Rightarrow> 'm SparkMonitor" where
  "constructor l =
     \<lparr> listener = l, cellmonitors = [], heap = [],
       cellExecCountSinceSparkJobStart = 0, data = Map.empty,
       appName = ''NULL'', appId = ''NULL'', appAttemptId = None, app = ''NULL'',
       totalCores = 0, numExecutors = 0, display_mode = shown,
       trace = [console_log ''SparkMonitor: Starting Comm with kernel.''] \<rparr>"

subsection \<open>Reading the dictionary of monitors\<close>

text \<open>
  The names every plain object inherits from \<open>Object.prototype\<close>. Each of them reads
  as a function (\<open>__proto__\<close> as the prototype object): a value that is truthy and has
  no \<open>removeDisplay\<close> and no \<open>onSpark...\<close> method.
\<close>

definition Object_prototype :: "string list" where
  "Object_prototype =
     [''constructor'', ''__defineGetter__'', ''__defineSetter__'', ''hasOwnProperty'',
      ''__lookupGetter__'', ''__lookupSetter__'', ''isPrototypeOf'', ''propertyIsEnumerable'',
      ''toString'', ''valueOf'', ''__proto__'', ''toLocaleString'']"

text \<open>
  What \<open>this.cellmonitors[id]\<close> evaluates to: \<open>undefined\<close>, an inherited member, or the
  monitor object at an address.
\<close>

datatype lookup = Absent | Inherited | Monitor nat

definition property :: "(string \<times> nat) list \<Rightarrow> string \<Rightarrow> lookup" where
  "property obj i =
     (case map_of obj i of
        Some a \<Rightarrow> Monitor a
      | None \<Rightarrow> if i \<in> set Object_prototype then Inherited else Absent)"

subsection \<open>Calls on the console and on monitor objects\<close>

definition console :: "action \<Rightarrow> 'm SparkMonitor \<Rightarrow> 'm SparkMonitor" where
  "console a s = s\<lparr>trace := trace s @ [a]\<rparr>"

text \<open>\<open>m.removeDisplay()\<close> for the monitor at address \<open>a\<close>.\<close>

definition call_removeDisplay ::
  "'m CellMonitor \<Rightarrow> nat \<Rightarrow> 'm SparkMonitor \<Rightarrow> 'm SparkMonitor" where
  "call_removeDisplay CM a s =
     s\<lparr>heap := (heap s)[a := removeDisplay CM (heap s ! a)],
       trace := trace s @ [RemoveDisplay a]\<rparr>"

text \<open>\<open>m.onSpark...(data)\<close> for the monitor at address \<open>a\<close>.\<close>

definition call_event ::
  "'m CellMonitor \<Rightarrow> nat \<Rightarrow> callback \<Rightarrow> sparkdata \<Rightarrow> 'm SparkMonitor \<Rightarrow> 'm SparkMonitor" where
  "call_event CM a cb d s =
     s\<lparr>heap := (heap s)[a := on_event CM cb d (heap s ! a)],
       trace := trace s @ [Forward a cb d]\<rparr>"

text \<open>
  \<open>if (cellmonitor) cellmonitor.onSpark...(data)\<close>: nothing for \<open>undefined\<close>, the call
  for a monitor, and a \<open>TypeError\<close> for an inherited member, which is truthy and has no
  such method.
\<close>

definition forward ::
  "'m CellMonitor \<Rightarrow> lookup \<Rightarrow> callback \<Rightarrow> sparkdata \<Rightarrow> 'm SparkMonitor
     \<Rightarrow> 'm SparkMonitor completion" where
  "forward CM cellmonitor cb d s =
     (case cellmonitor of
        Absent \<Rightarrow> Returns s
      | Inherited \<Rightarrow> Throws TypeError s
      | Monitor a \<Rightarrow> Returns (call_event CM a cb d s))"

subsection \<open>Template literals\<close>

text \<open>\<open>`${n}`\<close> for a non-negative integer: its decimal digits.\<close>

fun String :: "nat \<Rightarrow> string" where
  "String n =
     (if n < 10 then [''0123456789'' ! n]
      else String (n div 10) @ [''0123456789'' ! (n mod 10)])"

text \<open>\<open>`app${this.app}job${data.jobId}`\<close> and \<open>`app${this.app}stage${data.stageId}`\<close>.\<close>

definition job_key :: "string \<Rightarrow> nat \<Rightarrow> string" where
  "job_key a j = ''app'' @ a @ ''job'' @ String j"

definition stage_key :: "string \<Rightarrow> nat \<Rightarrow> string" where
  "stage_key a j = ''app'' @ a @ ''stage'' @ String j"

subsection \<open>Monitor lifecycle\<close>

definition getCurrentlyActiveCell :: "'m SparkMonitor \<Rightarrow> string option" where
  "getCurrentlyActiveCell s = activeCell (listener s)"

definition getCellMonitor :: "string \<Rightarrow> 'm SparkMonitor \<Rightarrow> lookup" where
  "getCellMonitor i s = property (cellmonitors s) i"

text \<open>
  \<open>stopCellMonitor(id)\<close>: the test \<open>if (this.cellmonitors[id])\<close> also passes for an
  inherited member, and \<open>removeDisplay()\<close> on it throws.
\<close>

definition stopCellMonitor ::
  "'m CellMonitor \<Rightarrow> string \<Rightarrow> 'm SparkMonitor \<Rightarrow> 'm SparkMonitor completion" where
  "stopCellMonitor CM i s =
     (case property (cellmonitors s) i of
        Absent \<Rightarrow> Returns s
      | Inherited \<Rightarrow> Throws TypeError s
      | Monitor a \<Rightarrow>
          (let s1 = call_removeDisplay CM a s
           in Returns (s1\<lparr>cellmonitors := AList.delete i (cellmonitors s1)\<rparr>)))"

definition cellExecutedAgain ::
  "'m CellMonitor \<Rightarrow> string \<Rightarrow> 'm SparkMonitor \<Rightarrow> 'm SparkMonitor completion" where
  "cellExecutedAgain CM cell s = stopCellMonitor CM cell s"

text \<open>
  \<open>startCellMonitor(cell)\<close>. The value it returns is \<open>this.cellmonitors[cell.id]\<close>, read
  in the state it returns.
\<close>

definition startCellMonitor ::
  "'m CellMonitor \<Rightarrow> string \<Rightarrow> 'm SparkMonitor \<Rightarrow> 'm SparkMonitor completion" where
  "startCellMonitor CM cell s =
     (case (case property (cellmonitors s) cell of
              Monitor a \<Rightarrow> Returns (call_removeDisplay CM a s)
            | Inherited \<Rightarrow> Throws TypeError s
            | Absent \<Rightarrow>
                if cellReexecuted (listener s) then cellExecutedAgain CM cell s
                else Returns s) of
        Throws e t \<Rightarrow> Throws e t
      | Returns s1 \<Rightarrow>
          (let a = length (heap s1);
               s2 = s1\<lparr>heap := heap s1 @ [new_CellMonitor CM cell],
                        trace := trace s1 @ [Constructed a cell]\<rparr>
           in Returns (s2\<lparr>cellmonitors := AList.update cell a (cellmonitors s2)\<rparr>)))"

text \<open>
  The handler of the notebook's "cell removed" signal that the constructor installs
  (\<open>data.type === 'remove'\<close>), for the removed cell's id.
\<close>

definition onCellRemoved ::
  "'m CellMonitor \<Rightarrow> string \<Rightarrow> 'm SparkMonitor \<Rightarrow> 'm SparkMonitor completion" where
  "onCellRemoved CM i s =
     (case getCellMonitor i s of
        Absent \<Rightarrow> Returns s
      | Inherited \<Rightarrow> Throws TypeError s
      | Monitor a \<Rightarrow> stopCellMonitor CM i (call_removeDisplay CM a s))"

subsection \<open>Showing and hiding all displays\<close>

definition showAll :: "'m SparkMonitor \<Rightarrow> 'm SparkMonitor" where
  "showAll s = s\<lparr>display_mode := shown\<rparr>"

text \<open>
  One round of the \<open>forEach\<close> of \<open>hideAll\<close>, for the key \<open>i\<close>, one of the object's own
  keys (\<open>Object.keys\<close>, \<open>hasOwnProperty\<close>).
\<close>

definition hideAll_step ::
  "'m CellMonitor \<Rightarrow> string \<Rightarrow> 'm SparkMonitor \<Rightarrow> 'm SparkMonitor" where
  "hideAll_step CM i s =
     (case map_of (cellmonitors s) i of
        Some a \<Rightarrow> if displayVisible CM (heap s ! a) then call_removeDisplay CM a s else s
      | None \<Rightarrow> s)"

definition hideAll :: "'m CellMonitor \<Rightarrow> 'm SparkMonitor \<Rightarrow> 'm SparkMonitor" where
  "hideAll CM s =
     (fold (hideAll_step CM) (map fst (cellmonitors s)) s)\<lparr>display_mode := hidden\<rparr>"

definition toggleAll :: "'m CellMonitor \<Rightarrow> 'm SparkMonitor \<Rightarrow> 'm SparkMonitor" where
  "toggleAll CM s =
     (if display_mode s = hidden then showAll s
      else if display_mode s = shown then hideAll CM s
      else s)"

subsection \<open>The event handlers\<close>

text \<open>
  \<open>onSparkJobStart(data)\<close>; \<open>uuidv4\<close> is the string a call of \<open>uuidv4()\<close> returns. The
  first statement reads \<open>cell.id\<close>, which throws a \<open>TypeError\<close> when \<open>cell\<close> is \<open>null\<close>;
  the test \<open>cell === null\<close> that follows it in the source is therefore never true when
  it is reached. The variable \<open>cellmonitor\<close> holds the first lookup, or else what
  \<open>startCellMonitor\<close> returns.
\<close>

definition onSparkJobStart ::
  "'m CellMonitor \<Rightarrow> string \<Rightarrow> sparkdata \<Rightarrow> 'm SparkMonitor \<Rightarrow> 'm SparkMonitor completion" where
  "onSparkJobStart CM uuidv4 d s =
     (case getCurrentlyActiveCell s of
        None \<Rightarrow> Throws TypeError s
      | Some cell0 \<Rightarrow>
          (let cell = (if cell0 = '''' then uuidv4 else cell0);
               s1 = (if cell0 = ''''
                     then s\<lparr>listener := (listener s)\<lparr>activeCell := Some uuidv4\<rparr>\<rparr>
                     else s);
               s2 = console (console_log (''SparkMonitor: Job Start at cell: '' @ cell
                                          @ '' [object Object]'')) s1;
               newExecution =
                 (numCellsExecuted (listener s2) > cellExecCountSinceSparkJobStart s2);
               s3 = (if newExecution
                     then s2\<lparr>cellExecCountSinceSparkJobStart := numCellsExecuted (listener s2)\<rparr>
                     else s2);
               starts = (display_mode s3 = shown \<and>
                         (getCellMonitor cell s3 = Absent \<or> newExecution))
           in case (if starts then startCellMonitor CM cell s3 else Returns s3) of
                Throws e t \<Rightarrow> Throws e t
              | Returns s4 \<Rightarrow>
                  (let cellmonitor = (if starts then getCellMonitor cell s4
                                      else getCellMonitor cell s3);
                       s5 = s4\<lparr>data := (data s4)(job_key (app s4) (data_jobId d) \<mapsto> cell),
                                totalCores := data_totalCores d,
                                numExecutors := data_numExecutors d\<rparr>
                   in forward CM cellmonitor JobStart d s5)))"

text \<open>
  \<open>onSparkJobEnd(data)\<close>: reading \<open>.cell_id\<close> of a missing entry of \<open>this.data\<close> throws;
  an entry whose \<open>cell_id\<close> is the empty string takes the \<open>else\<close> branch.
\<close>

definition onSparkJobEnd ::
  "'m CellMonitor \<Rightarrow> sparkdata \<Rightarrow> 'm SparkMonitor \<Rightarrow> 'm SparkMonitor completion" where
  "onSparkJobEnd CM d s =
     (case data s (job_key (app s) (data_jobId d)) of
        None \<Rightarrow> Throws TypeError s
      | Some i \<Rightarrow>
          if i \<noteq> '''' then
            (let s1 = console (console_log ''SparkMonitor: Job End at cell: '') s
             in forward CM (getCellMonitor i s1) JobEnd d s1)
          else Returns (console (console_error ''SparkMonitor:ERROR no cellID for job'') s))"

definition onSparkStageSubmitted ::
  "'m CellMonitor \<Rightarrow> sparkdata \<Rightarrow> 'm SparkMonitor \<Rightarrow> 'm SparkMonitor completion" where
  "onSparkStageSubmitted CM d s =
     (let s1 = console (console_log ''SparkMonitor:Stage Submitted'') s
      in case getCurrentlyActiveCell s1 of
           None \<Rightarrow>
             Returns (console (console_error
                        ''SparkMonitor: Stage started with no running cell.'') s1)
         | Some cell \<Rightarrow>
             (let s2 = s1\<lparr>data := (data s1)(stage_key (app s1) (data_stageId d) \<mapsto> cell)\<rparr>
              in forward CM (getCellMonitor cell s2) StageSubmitted d s2))"

definition onSparkStageCompleted ::
  "'m CellMonitor \<Rightarrow> sparkdata \<Rightarrow> 'm SparkMonitor \<Rightarrow> 'm SparkMonitor completion" where
  "onSparkStageCompleted CM d s =
     (let s1 = console (console_log ''SparkMonitor:Stage Completed'') s
      in case data s1 (stage_key (app s1) (data_stageId d)) of
           None \<Rightarrow> Throws TypeError s1
         | Some i \<Rightarrow>
             if i \<noteq> '''' then forward CM (property (cellmonitors s1) i) StageCompleted d s1
             else Returns (console (console_error
                             ''SparkMonitor:ERROR no cellId for completed stage'') s1))"

definition onSparkTaskStart ::
  "'m CellMonitor \<Rightarrow> sparkdata \<Rightarrow> 'm SparkMonitor \<Rightarrow> 'm SparkMonitor completion" where
  "onSparkTaskStart CM d s =
     (case data s (stage_key (app s) (data_stageId d)) of
        None \<Rightarrow> Throws TypeError s
      | Some i \<Rightarrow>
          if i \<noteq> '''' then forward CM (getCellMonitor i s) TaskStart d s
          else Returns (console (console_error
                          ''SparkMonitor:ERROR no cellID for task start'') s))"

definition onSparkTaskEnd ::
  "'m CellMonitor \<Rightarrow> sparkdata \<Rightarrow> 'm SparkMonitor \<Rightarrow> 'm SparkMonitor completion" where
  "onSparkTaskEnd CM d s =
     (case data s (stage_key (app s) (data_stageId d)) of
        None \<Rightarrow> Throws TypeError s
      | Some i \<Rightarrow>
          if i \<noteq> '''' then forward CM (getCellMonitor i s) TaskEnd d s
          else Returns (console (console_error
                          ''SparkMonitor:ERROR no cellID for task end'') s))"

definition onSparkApplicationEnd :: "sparkdata \<Rightarrow> 'm SparkMonitor \<Rightarrow> 'm SparkMonitor" where
  "onSparkApplicationEnd d s =
     console (console_log ''SparkMonitor: Spark App ended: [object Object]'') s"

definition onSparkApplicationStart :: "sparkdata \<Rightarrow> 'm SparkMonitor \<Rightarrow> 'm SparkMonitor" where
  "onSparkApplicationStart d s =
     s\<lparr>appId := data_appId d,
       appName := data_appName d,
       appAttemptId := Some (data_appAttemptId d),
       app := data_appId d @ ''_'' @ data_appAttemptId d\<rparr>"

definition onSparkExecutorAdded ::
  "'m CellMonitor \<Rightarrow> sparkdata \<Rightarrow> 'm SparkMonitor \<Rightarrow> 'm SparkMonitor completion" where
  "onSparkExecutorAdded CM d s =
     (let s1 = s\<lparr>totalCores := data_totalCores d, numExecutors := numExecutors s + 1\<rparr>
      in case getCurrentlyActiveCell s1 of
           Some cell \<Rightarrow> forward CM (getCellMonitor cell s1) ExecutorAdded d s1
         | None \<Rightarrow> Returns s1)"

definition onSparkExecutorRemoved ::
  "'m CellMonitor \<Rightarrow> sparkdata \<Rightarrow> 'm SparkMonitor \<Rightarrow> 'm SparkMonitor completion" where
  "onSparkExecutorRemoved CM d s =
     (let s1 = s\<lparr>totalCores := data_totalCores d, numExecutors := numExecutors s - 1\<rparr>
      in case getCurrentlyActiveCell s1 of
           Some cell \<Rightarrow> forward CM (getCellMonitor cell s1) ExecutorRemoved d s1
         | None \<Rightarrow> Returns s1)"

subsection \<open>Dispatch\<close>

text \<open>The \<open>switch\<close> of \<open>handleMessage\<close> on \<open>data.msgtype\<close>.\<close>

definition dispatch ::
  "'m CellMonitor \<Rightarrow> string \<Rightarrow> sparkdata \<Rightarrow> 'm SparkMonitor \<Rightarrow> 'm SparkMonitor completion" where
  "dispatch CM uuidv4 d s =
     (if data_msgtype d = ''sparkJobStart'' then onSparkJobStart CM uuidv4 d s
      else if data_msgtype d = ''sparkJobEnd'' then onSparkJobEnd CM d s
      else if data_msgtype d = ''sparkStageSubmitted'' then onSparkStageSubmitted CM d s
      else if data_msgtype d = ''sparkStageCompleted'' then onSparkStageCompleted CM d s
      else if data_msgtype d = ''sparkTaskStart'' then onSparkTaskStart CM d s
      else if data_msgtype d = ''sparkTaskEnd'' then onSparkTaskEnd CM d s
      else if data_msgtype d = ''sparkApplicationStart'' then Returns (onSparkApplicationStart d s)
      else if data_msgtype d = ''sparkApplicationEnd'' then Returns (onSparkApplicationEnd d s)
      else if data_msgtype d = ''sparkExecutorAdded'' then onSparkExecutorAdded CM d s
      else if data_msgtype d = ''sparkExecutorRemoved'' then onSparkExecutorRemoved CM d s
      else Returns s)"

definition handleMessage ::
  "'m CellMonitor \<Rightarrow> string \<Rightarrow> message \<Rightarrow> 'm SparkMonitor \<Rightarrow> 'm SparkMonitor completion" where
  "handleMessage CM uuidv4 m s =
     (if display_mode s = hidden then Returns s
      else
        (let s1 = (if msgtype m = '''' then console (console_warn ''SparkMonitor: Unknown message'') s
                   else s)
         in if msgtype m = ''fromscala'' then dispatch CM uuidv4 (msg m) s1
            else Returns s1))"

subsection \<open>Runs of the class\<close>

text \<open>The state a method leaves behind, whether it returned or threw.\<close>

definition after :: "'s completion \<Rightarrow> 's" where
  "after c = (case c of Returns s \<Rightarrow> s | Throws e s \<Rightarrow> s)"

text \<open>
  The states the class can be in: the constructor's, and from there any call of a public
  method (through \<open>handleMessage\<close> or directly), the notebook's cell-removed signal, and
  any change the host makes to the listener between two calls.
\<close>

inductive reachable :: "'m CellMonitor \<Rightarrow> 'm SparkMonitor \<Rightarrow> bool" for CM where
  constructed: "reachable CM (constructor l)"
| host: "reachable CM s \<Longrightarrow> reachable CM (s\<lparr>listener := l\<rparr>)"
| message: "reachable CM s \<Longrightarrow> reachable CM (after (handleMessage CM u m s))"
| handler: "reachable CM s \<Longrightarrow> reachable CM (after (dispatch CM u d s))"
| started: "reachable CM s \<Longrightarrow> reachable CM (after (startCellMonitor CM c s))"
| stopped: "reachable CM s \<Longrightarrow> reachable CM (after (stopCellMonitor CM i s))"
| removed: "reachable CM s \<Longrightarrow> reachable CM (after (onCellRemoved CM i s))"
| shown: "reachable CM s \<Longrightarrow> reachable CM (showAll s)"
| hidden: "reachable CM s \<Longrightarrow> reachable CM (hideAll CM s)"
| toggled: "reachable CM s \<Longrightarrow> reachable CM (toggleAll CM s)"

text \<open>
  The dictionary of monitors is well formed: no cell id has two entries, no monitor
  object is entered under two cell ids, every entry is an allocated object, and no
  entry stands under a name inherited from \<open>Object.prototype\<close>.
\<close>

definition monitors_ok :: "'m SparkMonitor \<Rightarrow> bool" where
  "monitors_ok s \<longleftrightarrow>
     distinct (map fst (cellmonitors s)) \<and> distinct (map snd (cellmonitors s)) \<and>
     list_all (\<lambda>a. a < length (heap s)) (map snd (cellmonitors s)) \<and>
     list_all (\<lambda>i. i \<notin> set Object_prototype) (map fst (cellmonitors s))"

text \<open>Two states with the same dictionary of monitors and the same number of objects.\<close>

definition same_monitors :: "'m SparkMonitor \<Rightarrow> 'm SparkMonitor \<Rightarrow> bool" where
  "same_monitors s s' \<longleftrightarrow> cellmonitors s' = cellmonitors s \<and> length (heap s') = length (heap s)"

text \<open>
  The condition under which \<open>onSparkJobStart\<close> gets a new monitor for the cell: it calls
  \<open>startCellMonitor\<close> (\<open>this.display_mode === 'shown' && (!cellmonitor || newExecution)\<close>),
  and \<open>startCellMonitor\<close> does not throw.
\<close>

definition creates_monitor :: "string \<Rightarrow> 'm SparkMonitor \<Rightarrow> bool" where
  "creates_monitor cell s \<longleftrightarrow>
     display_mode s = shown \<and>
     (getCellMonitor cell s = Absent \<or>
      (numCellsExecuted (listener s) > cellExecCountSinceSparkJobStart s \<and>
       getCellMonitor cell s \<noteq> Inherited))"

text \<open>
  The condition under which \<open>onSparkJobStart\<close> is left by the \<open>TypeError\<close> of
  \<open>startCellMonitor\<close>, before anything is recorded.
\<close>

definition start_throws :: "string \<Rightarrow> 'm SparkMonitor \<Rightarrow> bool" where
  "start_throws cell s \<longleftrightarrow>
     display_mode s = shown \<and>
     numCellsExecuted (listener s) > cellExecCountSinceSparkJobStart s \<and>
     getCellMonitor cell s = Inherited"

text \<open>
  What happens to the class between two events: a message arrives (with the string
  \<open>uuidv4()\<close> would return while it is handled), a handler is called on a payload, the
  host changes what the listener reports, a cell is removed from the notebook, a
  monitor is started or stopped for a cell id, or the displays are shown, hidden or
  toggled. A call that throws leaves the state it had reached, and the next step starts
  from there.
\<close>

datatype step =
    Message string message
  | Handler string sparkdata
  | Host CurrentCell
  | CellRemoved string
  | Start string
  | Stop string
  | ShowAll
  | HideAll
  | ToggleAll

fun perform :: "'m CellMonitor \<Rightarrow> step \<Rightarrow> 'm SparkMonitor \<Rightarrow> 'm SparkMonitor" where
  "perform CM (Message u m) s = after (handleMessage CM u m s)"
| "perform CM (Handler u d) s = after (dispatch CM u d s)"
| "perform CM (Host l) s = s\<lparr>listener := l\<rparr>"
| "perform CM (CellRemoved i) s = after (onCellRemoved CM i s)"
| "perform CM (Start i) s = after (startCellMonitor CM i s)"
| "perform CM (Stop i) s = after (stopCellMonitor CM i s)"
| "perform CM ShowAll s = showAll s"
| "perform CM HideAll s = hideAll CM s"
| "perform CM ToggleAll s = toggleAll CM s"

definition run :: "'m CellMonitor \<Rightarrow> step list \<Rightarrow> 'm SparkMonitor \<Rightarrow> 'm SparkMonitor" where
  "run CM steps s = fold (perform CM) steps s"

text \<open>
  An event, handled in state \<open>s\<close>, that leaves the job \<open>j\<close> of cell \<open>c\<close> alone: it is not
  an application start that changes the app instance, not a job start that runs cell
  \<open>c\<close> anew while the displays are shown (a new execution counted by the listener, which
  replaces the monitor of \<open>c\<close>), and not a job start that records the jobId \<open>j\<close> for
  another cell. Every other event is harmless, other job starts included.
\<close>

definition harmless_event ::
  "string \<Rightarrow> nat \<Rightarrow> string \<Rightarrow> sparkdata \<Rightarrow> 'm SparkMonitor \<Rightarrow> bool" where
  "harmless_event c j uuidv4 d s =
     (if data_msgtype d = ''sparkApplicationStart''
      then data_appId d @ ''_'' @ data_appAttemptId d = app s
      else if data_msgtype d = ''sparkJobStart''
      then (case getCurrentlyActiveCell s of
              None \<Rightarrow> True
            | Some c0 \<Rightarrow>
                (let cell = (if c0 = '''' then uuidv4 else c0)
                 in (cell = c \<longrightarrow>
                       display_mode s = hidden \<or>
                       \<not> numCellsExecuted (listener s) > cellExecCountSinceSparkJobStart s) \<and>
                    (data_jobId d = j \<longrightarrow> cell = c)))
      else True)"



subsection \<open>Concrete inputs\<close>

text \<open>
  Modelled from the spec: the class \<open>CellMonitor\<close> (src/js/CellMonitor.js is not among
  the sources), reduced to the display-visible flag the spec gives a monitor: the flag
  is off in a new monitor, \<open>removeDisplay\<close> turns it off, an event turns it on. It only
  serves to run the methods on concrete inputs; every theorem below holds for any
  \<open>CellMonitor\<close>.
\<close>

definition plainMonitor :: "bool CellMonitor" where
  "plainMonitor =
     \<lparr> new_CellMonitor = (\<lambda>cell. False), removeDisplay = (\<lambda>m. False),
       displayVisible = (\<lambda>m. m), on_event = (\<lambda>cb d m. True) \<rparr>"

text \<open>
  A listener with the running cell \<open>c1\<close>, one with no running cell, and one that has
  counted a second execution and reports the running cell \<open>c2\<close>.
\<close>

definition cell_c1 :: CurrentCell where
  "cell_c1 = \<lparr> activeCell = Some ''c1'', numCellsExecuted = 1, cellReexecuted = False \<rparr>"

definition no_cell :: CurrentCell where
  "no_cell = \<lparr> activeCell = None, numCellsExecuted = 0, cellReexecuted = False \<rparr>"


text \<open>A payload with every field set, and a message that carries it under a given tag.\<close>

definition payload :: sparkdata where
  "payload =
     \<lparr> data_msgtype = '''', data_jobId = 0, data_stageId = 0, data_totalCores = 16,
       data_numExecutors = 2, data_appId = ''app1'', data_appName = ''demo'',
       data_appAttemptId = ''1'' \<rparr>"

definition fromscala :: "string \<Rightarrow> message" where
  "fromscala t = \<lparr> msgtype = ''fromscala'', msg = payload\<lparr>data_msgtype := t\<rparr> \<rparr>"

text \<open>
  States used as concrete inputs: after one job start of cell \<open>c1\<close> (which gets the
  monitor at address 0); that state after \<open>hideAll()\<close>; a new engine after \<open>hideAll()\<close>;
  and the first state once the listener has counted a second execution of the cell.
\<close>

definition job7 :: sparkdata where
  "job7 = payload\<lparr>data_msgtype := ''sparkJobStart'', data_jobId := 7\<rparr>"

definition shown_c1 :: "bool SparkMonitor" where
  "shown_c1 =
     after (handleMessage plainMonitor ''u1'' (fromscala ''sparkJobStart'') (constructor cell_c1))"

definition hidden_c1 :: "bool SparkMonitor" where
  "hidden_c1 = hideAll plainMonitor shown_c1"

definition hidden_fresh :: "bool SparkMonitor" where
  "hidden_fresh = hideAll plainMonitor (constructor cell_c1)"

definition rerun_c1 :: "bool SparkMonitor" where
  "rerun_c1 = shown_c1\<lparr>listener := cell_c1\<lparr>numCellsExecuted := 2\<rparr>\<rparr>"



definition hidden_rerun_c1 :: "bool SparkMonitor" where
  "hidden_rerun_c1 = hideAll plainMonitor rerun_c1"


section \<open>Basic facts\<close>

declare String.simps [simp del]

lemma String_digits: "String 907 = ''907''"
  by (simp add: String.simps)

lemma after_simps [simp]: "after (Returns s) = s" "after (Throws e s) = s"
  by (simp_all add: after_def)

subsection \<open>The two dictionaries\<close>

text \<open>No key of \<open>this.data\<close> is a name inherited from \<open>Object.prototype\<close>.\<close>

lemma data_keys_not_inherited:
  "job_key a j \<notin> set Object_prototype" "stage_key a j \<notin> set Object_prototype"
  by (simp_all add: job_key_def stage_key_def Object_prototype_def)

lemma property_update [simp]:
  "property (AList.update k v obj) i = (if i = k then Monitor v else property obj i)"
  by (simp add: property_def AList.update_conv')

lemma property_delete [simp]:
  "property (AList.delete k obj) i =
     (if i = k then (if k \<in> set Object_prototype then Inherited else Absent)
      else property obj i)"
  by (simp add: property_def AList.delete_conv')

lemma property_Monitor: "property obj i = Monitor a \<longleftrightarrow> map_of obj i = Some a"
  by (simp add: property_def split: option.split)

lemma delete_absent: "map_of xs i = None \<Longrightarrow> AList.delete i xs = xs"
  by (simp add: map_of_eq_None_iff)

lemma delete_not_Monitor: "\<forall>a. property obj i \<noteq> Monitor a \<Longrightarrow> AList.delete i obj = obj"
  by (cases "map_of obj i") (simp_all add: delete_absent property_def)

subsection \<open>What the calls leave unchanged\<close>

lemma console_fields [simp]:
  "cellmonitors (console a s) = cellmonitors s" "heap (console a s) = heap s"
  "data (console a s) = data s" "app (console a s) = app s"
  "display_mode (console a s) = display_mode s" "listener (console a s) = listener s"
  "totalCores (console a s) = totalCores s" "numExecutors (console a s) = numExecutors s"
  "cellExecCountSinceSparkJobStart (console a s) = cellExecCountSinceSparkJobStart s"
  "trace (console a s) = trace s @ [a]"
  by (simp_all add: console_def)

lemma call_removeDisplay_fields [simp]:
  "cellmonitors (call_removeDisplay CM a s) = cellmonitors s"
  "length (heap (call_removeDisplay CM a s)) = length (heap s)"
  "data (call_removeDisplay CM a s) = data s" "app (call_removeDisplay CM a s) = app s"
  "display_mode (call_removeDisplay CM a s) = display_mode s"
  "listener (call_removeDisplay CM a s) = listener s"
  "totalCores (call_removeDisplay CM a s) = totalCores s"
  "numExecutors (call_removeDisplay CM a s) = numExecutors s"
  "cellExecCountSinceSparkJobStart (call_removeDisplay CM a s) = cellExecCountSinceSparkJobStart s"
  "trace (call_removeDisplay CM a s) = trace s @ [RemoveDisplay a]"
  by (simp_all add: call_removeDisplay_def)

lemma forward_fields [simp]:
  "cellmonitors (after (forward CM x cb d s)) = cellmonitors s"
  "length (heap (after (forward CM x cb d s))) = length (heap s)"
  "data (after (forward CM x cb d s)) = data s" "app (after (forward CM x cb d s)) = app s"
  "display_mode (after (forward CM x cb d s)) = display_mode s"
  "listener (after (forward CM x cb d s)) = listener s"
  "totalCores (after (forward CM x cb d s)) = totalCores s"
  "numExecutors (after (forward CM x cb d s)) = numExecutors s"
  "cellExecCountSinceSparkJobStart (after (forward CM x cb d s)) = cellExecCountSinceSparkJobStart s"
  by (simp_all add: forward_def call_event_def split: lookup.split)

lemma forward_trace [simp]:
  "trace (after (forward CM x cb d s)) =
     trace s @ (case x of Monitor a \<Rightarrow> [Forward a cb d] | _ \<Rightarrow> [])"
  by (simp add: forward_def call_event_def split: lookup.split)

text \<open>A forward throws exactly for an inherited member.\<close>

lemma forward_kind:
  "forward CM x cb d s =
     (if x = Inherited then Throws TypeError (after (forward CM x cb d s))
      else Returns (after (forward CM x cb d s)))"
  by (simp add: forward_def split: lookup.split)

lemma forward_returns:
  "x \<noteq> Inherited \<Longrightarrow> forward CM x cb d s = Returns (after (forward CM x cb d s))"
  by (simp add: forward_def split: lookup.split)

lemma stopCellMonitor_fields [simp]:
  "cellmonitors (after (stopCellMonitor CM i s)) = AList.delete i (cellmonitors s)"
  "length (heap (after (stopCellMonitor CM i s))) = length (heap s)"
  "data (after (stopCellMonitor CM i s)) = data s"
  "app (after (stopCellMonitor CM i s)) = app s"
  "display_mode (after (stopCellMonitor CM i s)) = display_mode s"
  "listener (after (stopCellMonitor CM i s)) = listener s"
  "trace (after (stopCellMonitor CM i s)) =
     trace s @ (case property (cellmonitors s) i of Monitor b \<Rightarrow> [RemoveDisplay b] | _ \<Rightarrow> [])"
  by (simp_all add: stopCellMonitor_def Let_def delete_not_Monitor split: lookup.split)

lemma stopCellMonitor_no_monitor:
  "getCellMonitor i s = Absent \<Longrightarrow> stopCellMonitor CM i s = Returns s"
  by (simp add: stopCellMonitor_def getCellMonitor_def)

lemma startCellMonitor_returns:
  "getCellMonitor c s \<noteq> Inherited \<Longrightarrow>
     startCellMonitor CM c s = Returns (after (startCellMonitor CM c s))"
  by (simp add: startCellMonitor_def cellExecutedAgain_def stopCellMonitor_def
        getCellMonitor_def Let_def split: lookup.split)

lemma startCellMonitor_inherited:
  "getCellMonitor c s = Inherited \<Longrightarrow> startCellMonitor CM c s = Throws TypeError s"
  by (simp add: startCellMonitor_def getCellMonitor_def)

lemma stopCellMonitor_returns:
  "getCellMonitor i s \<noteq> Inherited \<Longrightarrow>
     stopCellMonitor CM i s = Returns (after (stopCellMonitor CM i s))"
  by (simp add: stopCellMonitor_def getCellMonitor_def Let_def split: lookup.split)

lemma stopCellMonitor_inherited:
  "getCellMonitor i s = Inherited \<Longrightarrow> stopCellMonitor CM i s = Throws TypeError s"
  by (simp add: stopCellMonitor_def getCellMonitor_def)

lemma startCellMonitor_frame [simp]:
  "data (after (startCellMonitor CM c s)) = data s"
  "app (after (startCellMonitor CM c s)) = app s"
  "display_mode (after (startCellMonitor CM c s)) = display_mode s"
  "listener (after (startCellMonitor CM c s)) = listener s"
  "totalCores (after (startCellMonitor CM c s)) = totalCores s"
  "numExecutors (after (startCellMonitor CM c s)) = numExecutors s"
  "cellExecCountSinceSparkJobStart (after (startCellMonitor CM c s))
     = cellExecCountSinceSparkJobStart s"
  by (simp_all add: startCellMonitor_def cellExecutedAgain_def stopCellMonitor_def Let_def
        split: lookup.split)

lemma startCellMonitor_fields:
  assumes "getCellMonitor c s \<noteq> Inherited"
  shows "cellmonitors (after (startCellMonitor CM c s))
           = AList.update c (length (heap s)) (cellmonitors s)"
    and "length (heap (after (startCellMonitor CM c s))) = Suc (length (heap s))"
    and "trace (after (startCellMonitor CM c s)) =
           trace s @ (case getCellMonitor c s of Monitor b \<Rightarrow> [RemoveDisplay b] | _ \<Rightarrow> [])
                   @ [Constructed (length (heap s)) c]"
  using assms
  by (simp_all add: startCellMonitor_def cellExecutedAgain_def stopCellMonitor_def
        getCellMonitor_def Let_def split: lookup.split)

lemma startCellMonitor_throws:
  "getCellMonitor c s = Inherited \<Longrightarrow> after (startCellMonitor CM c s) = s"
  by (simp add: startCellMonitor_def getCellMonitor_def)

lemma onCellRemoved_fields [simp]:
  "cellmonitors (after (onCellRemoved CM i s)) = AList.delete i (cellmonitors s)"
  "length (heap (after (onCellRemoved CM i s))) = length (heap s)"
  "data (after (onCellRemoved CM i s)) = data s"
  "app (after (onCellRemoved CM i s)) = app s"
  by (simp_all add: onCellRemoved_def getCellMonitor_def delete_not_Monitor split: lookup.split)

subsection \<open>Which calls leave the dictionary of monitors alone\<close>

lemma same_onSparkJobEnd: "same_monitors s (after (onSparkJobEnd CM d s))"
  by (simp add: onSparkJobEnd_def Let_def same_monitors_def split: option.split)

lemma same_onSparkStageSubmitted: "same_monitors s (after (onSparkStageSubmitted CM d s))"
  by (simp add: onSparkStageSubmitted_def Let_def same_monitors_def split: option.split)

lemma same_onSparkStageCompleted: "same_monitors s (after (onSparkStageCompleted CM d s))"
  by (simp add: onSparkStageCompleted_def Let_def same_monitors_def split: option.split)

lemma same_onSparkTaskStart: "same_monitors s (after (onSparkTaskStart CM d s))"
  by (simp add: onSparkTaskStart_def Let_def same_monitors_def split: option.split)

lemma same_onSparkTaskEnd: "same_monitors s (after (onSparkTaskEnd CM d s))"
  by (simp add: onSparkTaskEnd_def Let_def same_monitors_def split: option.split)

lemma same_onSparkApplicationStart: "same_monitors s (onSparkApplicationStart d s)"
  by (simp add: onSparkApplicationStart_def same_monitors_def)

lemma same_onSparkApplicationEnd: "same_monitors s (onSparkApplicationEnd d s)"
  by (simp add: onSparkApplicationEnd_def same_monitors_def)

lemma same_onSparkExecutorAdded: "same_monitors s (after (onSparkExecutorAdded CM d s))"
  by (simp add: onSparkExecutorAdded_def Let_def same_monitors_def split: option.split)

lemma same_onSparkExecutorRemoved: "same_monitors s (after (onSparkExecutorRemoved CM d s))"
  by (simp add: onSparkExecutorRemoved_def Let_def same_monitors_def split: option.split)

lemma same_hideAll_step: "same_monitors s (hideAll_step CM i s)"
  by (simp add: hideAll_step_def same_monitors_def split: option.split)

lemma same_fold_hideAll_step: "same_monitors s (fold (hideAll_step CM) ks s)"
proof (induction ks arbitrary: s)
  case Nil
  show ?case by (simp add: same_monitors_def)
next
  case (Cons k ks)
  have "same_monitors (hideAll_step CM k s) (fold (hideAll_step CM) ks (hideAll_step CM k s))"
    by (rule Cons.IH)
  with same_hideAll_step [of s CM k] show ?case
    by (simp add: same_monitors_def)
qed

lemma same_hideAll: "same_monitors s (hideAll CM s)"
  using same_fold_hideAll_step [of s CM "map fst (cellmonitors s)"]
  by (simp add: hideAll_def same_monitors_def)

lemma same_showAll: "same_monitors s (showAll s)"
  by (simp add: showAll_def same_monitors_def)

lemma same_toggleAll: "same_monitors s (toggleAll CM s)"
  by (simp add: toggleAll_def same_hideAll same_showAll) (simp add: same_monitors_def)

lemma same_dispatch_other:
  "data_msgtype d \<noteq> ''sparkJobStart'' \<Longrightarrow> same_monitors s (after (dispatch CM u d s))"
  unfolding dispatch_def
  by (simp add: same_onSparkJobEnd same_onSparkStageSubmitted same_onSparkStageCompleted
        same_onSparkTaskStart same_onSparkTaskEnd same_onSparkApplicationStart
        same_onSparkApplicationEnd same_onSparkExecutorAdded same_onSparkExecutorRemoved)
     (simp add: same_monitors_def)

subsection \<open>The dictionary of monitors stays well formed\<close>

lemma update_fresh_ok:
  "distinct (map fst xs) \<Longrightarrow> distinct (map snd xs) \<Longrightarrow> list_all (\<lambda>a. a < n) (map snd xs) \<Longrightarrow>
   distinct (map fst (AList.update k n xs)) \<and> distinct (map snd (AList.update k n xs)) \<and>
   list_all (\<lambda>a. a < Suc n) (map snd (AList.update k n xs)) \<and>
   snd ` set (AList.update k n xs) \<subseteq> insert n (snd ` set xs)"
proof (induction xs)
  case Nil
  show ?case by simp
next
  case (Cons p xs)
  then show ?case
    by (cases p) (auto simp add: list_all_iff AList.dom_update less_Suc_eq)
qed

lemma update_keys_ok:
  "list_all P (map fst xs) \<Longrightarrow> P k \<Longrightarrow> list_all P (map fst (AList.update k n xs))"
  by (auto simp add: list_all_iff AList.dom_update)

lemma delete_ok:
  "distinct (map fst xs) \<Longrightarrow> distinct (map snd xs) \<Longrightarrow> list_all (\<lambda>a. a < n) (map snd xs) \<Longrightarrow>
   list_all P (map fst xs) \<Longrightarrow>
   distinct (map fst (AList.delete k xs)) \<and> distinct (map snd (AList.delete k xs)) \<and>
   list_all (\<lambda>a. a < n) (map snd (AList.delete k xs)) \<and>
   list_all P (map fst (AList.delete k xs))"
  by (simp add: AList.distinct_delete AList.delete_eq distinct_map_filter list_all_iff)

lemma monitors_ok_same: "same_monitors s s' \<Longrightarrow> monitors_ok s \<Longrightarrow> monitors_ok s'"
  by (simp add: same_monitors_def monitors_ok_def)

text \<open>In a well-formed dictionary an inherited name is never the key of a monitor.\<close>

lemma monitors_ok_key:
  assumes "monitors_ok s" and "getCellMonitor c s = Monitor a"
  shows "c \<notin> set Object_prototype" and "a < length (heap s)"
proof -
  from assms(2) have "(c, a) \<in> set (cellmonitors s)"
    by (simp add: getCellMonitor_def property_Monitor map_of_SomeD)
  with assms(1) show "c \<notin> set Object_prototype" and "a < length (heap s)"
    by (auto simp add: monitors_ok_def list_all_iff)
qed

lemma monitors_ok_start: "monitors_ok s \<Longrightarrow> monitors_ok (after (startCellMonitor CM c s))"
proof (cases "getCellMonitor c s")
  case Inherited
  assume "monitors_ok s"
  with Inherited show ?thesis by (simp add: startCellMonitor_throws)
next
  case Absent
  assume ok: "monitors_ok s"
  from Absent have k: "c \<notin> set Object_prototype"
    by (auto simp add: getCellMonitor_def property_def split: option.splits if_splits)
  from Absent have n: "getCellMonitor c s \<noteq> Inherited" by simp
  show ?thesis
    using ok update_fresh_ok [of "cellmonitors s" "length (heap s)" c]
      update_keys_ok [of "\<lambda>i. i \<notin> set Object_prototype" "cellmonitors s" c "length (heap s)"] k
    by (simp add: monitors_ok_def startCellMonitor_fields [OF n])
next
  case (Monitor a)
  assume ok: "monitors_ok s"
  from monitors_ok_key(1) [OF ok Monitor] have k: "c \<notin> set Object_prototype" .
  from Monitor have n: "getCellMonitor c s \<noteq> Inherited" by simp
  show ?thesis
    using ok update_fresh_ok [of "cellmonitors s" "length (heap s)" c]
      update_keys_ok [of "\<lambda>i. i \<notin> set Object_prototype" "cellmonitors s" c "length (heap s)"] k
    by (simp add: monitors_ok_def startCellMonitor_fields [OF n])
qed

lemma monitors_ok_stop: "monitors_ok s \<Longrightarrow> monitors_ok (after (stopCellMonitor CM i s))"
  using delete_ok [of "cellmonitors s" "length (heap s)" "\<lambda>i. i \<notin> set Object_prototype" i]
  by (simp add: monitors_ok_def)

lemma monitors_ok_removed: "monitors_ok s \<Longrightarrow> monitors_ok (after (onCellRemoved CM i s))"
  using delete_ok [of "cellmonitors s" "length (heap s)" "\<lambda>i. i \<notin> set Object_prototype" i]
  by (simp add: monitors_ok_def)

subsection \<open>What a job start does\<close>

text \<open>
  For a running cell \<open>c0\<close> the handler works on the cell id \<open>cell\<close> (the fresh id when
  \<open>c0\<close> is empty). It is left by a \<open>TypeError\<close> exactly when \<open>this.cellmonitors[cell]\<close>
  is an inherited member: from \<open>startCellMonitor\<close>, before anything is recorded, when that
  is called, and from the final forward otherwise.
\<close>

lemma jobStart_active:
  assumes "getCurrentlyActiveCell s = Some c0"
    and "cell = (if c0 = '''' then u else c0)"
    and "s' = after (onSparkJobStart CM u d s)"
    and "new = length (heap s)"
  shows "onSparkJobStart CM u d s =
           (if getCellMonitor cell s = Inherited then Throws TypeError s' else Returns s')"
    and "data s' = (if start_throws cell s then data s
                    else (data s)(job_key (app s) (data_jobId d) \<mapsto> cell))"
    and "app s' = app s"
    and "totalCores s' = (if start_throws cell s then totalCores s else data_totalCores d)"
    and "numExecutors s' = (if start_throws cell s then numExecutors s else data_numExecutors d)"
    and "display_mode s' = display_mode s"
    and "getCurrentlyActiveCell s' = Some cell"
    and "cellmonitors s' =
           (if creates_monitor cell s then AList.update cell new (cellmonitors s)
            else cellmonitors s)"
    and "length (heap s') = (if creates_monitor cell s then Suc new else new)"
    and "trace s' =
           trace s @ [console_log (''SparkMonitor: Job Start at cell: '' @ cell @ '' [object Object]'')]
           @ (if creates_monitor cell s
              then (case getCellMonitor cell s of Monitor b \<Rightarrow> [RemoveDisplay b] | _ \<Rightarrow> [])
                   @ [Constructed new cell, Forward new JobStart d]
              else (case getCellMonitor cell s of Monitor a \<Rightarrow> [Forward a JobStart d] | _ \<Rightarrow> []))"
proof -
  define s1 where "s1 = (if c0 = ''''
                     then s\<lparr>listener := (listener s)\<lparr>activeCell := Some u\<rparr>\<rparr>
                     else s)"
  define s2 where "s2 = console (console_log (''SparkMonitor: Job Start at cell: '' @ cell
                                          @ '' [object Object]'')) s1"
  define nx where "nx \<longleftrightarrow> numCellsExecuted (listener s2) > cellExecCountSinceSparkJobStart s2"
  define s3 where "s3 = (if nx
                     then s2\<lparr>cellExecCountSinceSparkJobStart := numCellsExecuted (listener s2)\<rparr>
                     else s2)"
  define starts where
    "starts \<longleftrightarrow> display_mode s3 = shown \<and> (getCellMonitor cell s3 = Absent \<or> nx)"
  define r where "r = (if starts then startCellMonitor CM cell s3 else Returns s3)"
  define fin where "fin = (\<lambda>s4. forward CM (if starts then getCellMonitor cell s4
                                              else getCellMonitor cell s3) JobStart d
              (s4\<lparr>data := (data s4)(job_key (app s4) (data_jobId d) \<mapsto> cell),
                  totalCores := data_totalCores d,
                  numExecutors := data_numExecutors d\<rparr>))"
  have eq: "onSparkJobStart CM u d s =
              (case r of Throws e t \<Rightarrow> Throws e t | Returns s4 \<Rightarrow> fin s4)"
    unfolding fin_def r_def starts_def s3_def nx_def s2_def s1_def assms(2)
    by (simp only: onSparkJobStart_def Let_def assms(1) option.case)
  have f3: "cellmonitors s3 = cellmonitors s" "heap s3 = heap s" "data s3 = data s"
    "app s3 = app s" "display_mode s3 = display_mode s"
    "totalCores s3 = totalCores s" "numExecutors s3 = numExecutors s"
    "activeCell (listener s3) = Some cell"
    "trace s3 = trace s @ [console_log (''SparkMonitor: Job Start at cell: '' @ cell
                                          @ '' [object Object]'')]"
    using assms(1,2) by (simp_all add: s3_def s2_def s1_def getCurrentlyActiveCell_def)
  have l3: "getCellMonitor cell s3 = getCellMonitor cell s"
    by (simp add: getCellMonitor_def f3)
  have nx: "nx \<longleftrightarrow> numCellsExecuted (listener s) > cellExecCountSinceSparkJobStart s"
    by (simp add: nx_def s2_def s1_def)
  have starts: "starts \<longleftrightarrow> creates_monitor cell s \<or> start_throws cell s"
    by (auto simp add: starts_def creates_monitor_def start_throws_def nx l3 f3)
  have excl: "\<not> (creates_monitor cell s \<and> start_throws cell s)"
    by (auto simp add: creates_monitor_def start_throws_def)
  have inh: "start_throws cell s \<Longrightarrow> getCellMonitor cell s = Inherited"
    and ninh: "creates_monitor cell s \<Longrightarrow> getCellMonitor cell s \<noteq> Inherited"
    by (auto simp add: creates_monitor_def start_throws_def)
  consider (throws) "start_throws cell s" | (creates) "creates_monitor cell s"
    | (keeps) "\<not> start_throws cell s" "\<not> creates_monitor cell s"
    by blast
  then have all: "onSparkJobStart CM u d s =
           (if getCellMonitor cell s = Inherited then Throws TypeError s' else Returns s') \<and>
      data s' = (if start_throws cell s then data s
                 else (data s)(job_key (app s) (data_jobId d) \<mapsto> cell)) \<and>
      app s' = app s \<and>
      totalCores s' = (if start_throws cell s then totalCores s else data_totalCores d) \<and>
      numExecutors s' = (if start_throws cell s then numExecutors s else data_numExecutors d) \<and>
      display_mode s' = display_mode s \<and>
      getCurrentlyActiveCell s' = Some cell \<and>
      cellmonitors s' =
           (if creates_monitor cell s then AList.update cell new (cellmonitors s)
            else cellmonitors s) \<and>
      length (heap s') = (if creates_monitor cell s then Suc new else new) \<and>
      trace s' =
           trace s @ [console_log (''SparkMonitor: Job Start at cell: '' @ cell @ '' [object Object]'')]
           @ (if creates_monitor cell s
              then (case getCellMonitor cell s of Monitor b \<Rightarrow> [RemoveDisplay b] | _ \<Rightarrow> [])
                   @ [Constructed new cell, Forward new JobStart d]
              else (case getCellMonitor cell s of Monitor a \<Rightarrow> [Forward a JobStart d] | _ \<Rightarrow> []))"
  proof cases
    case throws
    then have i3: "getCellMonitor cell s3 = Inherited"
      using inh l3 by simp
    have "r = Throws TypeError s3"
      using throws starts by (simp add: r_def startCellMonitor_inherited [OF i3])
    then have res: "onSparkJobStart CM u d s = Throws TypeError s3"
      using eq by simp
    then have s': "s' = s3"
      using assms(3) by simp
    show ?thesis
      using throws excl inh res
      by (simp add: s' f3 getCurrentlyActiveCell_def assms(4))
  next
    case creates
    then have n3: "getCellMonitor cell s3 \<noteq> Inherited"
      using ninh l3 by simp
    let ?s4 = "after (startCellMonitor CM cell s3)"
    note st = startCellMonitor_fields [OF n3, of CM]
    have "r = startCellMonitor CM cell s3"
      using creates starts by (simp add: r_def)
    also have "\<dots> = Returns ?s4"
      by (rule startCellMonitor_returns [OF n3])
    finally have "r = Returns ?s4" .
    then have res: "onSparkJobStart CM u d s = fin ?s4"
      using eq by simp
    have look: "getCellMonitor cell ?s4 = Monitor (length (heap s))"
      by (simp add: getCellMonitor_def st(1) f3)
    have fin4: "fin ?s4 = forward CM (Monitor (length (heap s))) JobStart d
              (?s4\<lparr>data := (data ?s4)(job_key (app ?s4) (data_jobId d) \<mapsto> cell),
                  totalCores := data_totalCores d,
                  numExecutors := data_numExecutors d\<rparr>)"
      using creates starts look by (simp add: fin_def)
    have kind: "fin ?s4 = Returns (after (fin ?s4))"
      unfolding fin4 by (rule forward_returns) simp
    have s': "s' = after (fin ?s4)"
      using assms(3) res by simp
    have nothrow: "\<not> start_throws cell s"
      using creates excl by blast
    have "onSparkJobStart CM u d s = Returns s'"
      using res kind s' by simp
    moreover have "data s' = (data s)(job_key (app s) (data_jobId d) \<mapsto> cell)"
      "app s' = app s" "totalCores s' = data_totalCores d"
      "numExecutors s' = data_numExecutors d" "display_mode s' = display_mode s"
      "getCurrentlyActiveCell s' = Some cell"
      by (simp_all add: s' fin_def f3 getCurrentlyActiveCell_def)
    moreover have "cellmonitors s' = AList.update cell new (cellmonitors s)"
      "length (heap s') = Suc new"
      by (simp_all add: s' fin_def st f3 assms(4))
    moreover have "trace s' =
           trace s @ [console_log (''SparkMonitor: Job Start at cell: '' @ cell @ '' [object Object]'')]
           @ (case getCellMonitor cell s of Monitor b \<Rightarrow> [RemoveDisplay b] | _ \<Rightarrow> [])
           @ [Constructed new cell, Forward new JobStart d]"
      using creates starts look by (simp add: s' fin_def st f3 l3 assms(4))
    ultimately show ?thesis
      using creates nothrow ninh by simp
  next
    case keeps
    then have ns: "\<not> starts"
      using starts by simp
    have "r = Returns s3"
      using ns by (simp add: r_def)
    then have res: "onSparkJobStart CM u d s = fin s3"
      using eq by simp
    have s': "s' = after (fin s3)"
      using assms(3) res by simp
    have fin3: "fin s3 = forward CM (getCellMonitor cell s) JobStart d
              (s3\<lparr>data := (data s3)(job_key (app s3) (data_jobId d) \<mapsto> cell),
                  totalCores := data_totalCores d,
                  numExecutors := data_numExecutors d\<rparr>)"
      using ns by (simp add: fin_def l3)
    have kind: "fin s3 = (if getCellMonitor cell s = Inherited then Throws TypeError s'
                          else Returns s')"
      unfolding s' fin3 by (rule forward_kind)
    have "onSparkJobStart CM u d s =
            (if getCellMonitor cell s = Inherited then Throws TypeError s' else Returns s')"
      using res kind by simp
    moreover have "data s' = (data s)(job_key (app s) (data_jobId d) \<mapsto> cell)"
      "app s' = app s" "totalCores s' = data_totalCores d"
      "numExecutors s' = data_numExecutors d" "display_mode s' = display_mode s"
      "getCurrentlyActiveCell s' = Some cell"
      "cellmonitors s' = cellmonitors s" "length (heap s') = new"
      by (simp_all add: s' fin_def f3 getCurrentlyActiveCell_def assms(4))
    moreover have "trace s' =
           trace s @ [console_log (''SparkMonitor: Job Start at cell: '' @ cell @ '' [object Object]'')]
           @ (case getCellMonitor cell s of Monitor a \<Rightarrow> [Forward a JobStart d] | _ \<Rightarrow> [])"
      using ns by (simp add: s' fin_def f3 l3)
    ultimately show ?thesis
      using keeps by simp
  qed
  note r1 = all [THEN conjunct2]
  note r2 = r1 [THEN conjunct2]
  note r3 = r2 [THEN conjunct2]
  note r4 = r3 [THEN conjunct2]
  note r5 = r4 [THEN conjunct2]
  note r6 = r5 [THEN conjunct2]
  note r7 = r6 [THEN conjunct2]
  note r8 = r7 [THEN conjunct2]
  note r9 = r8 [THEN conjunct2]
  note c = all [THEN conjunct1] r1 [THEN conjunct1] r2 [THEN conjunct1] r3 [THEN conjunct1]
    r4 [THEN conjunct1] r5 [THEN conjunct1] r6 [THEN conjunct1] r7 [THEN conjunct1]
    r8 [THEN conjunct1] r9
  show "onSparkJobStart CM u d s =
           (if getCellMonitor cell s = Inherited then Throws TypeError s' else Returns s')"
    and "data s' = (if start_throws cell s then data s
                    else (data s)(job_key (app s) (data_jobId d) \<mapsto> cell))"
    and "app s' = app s"
    and "totalCores s' = (if start_throws cell s then totalCores s else data_totalCores d)"
    and "numExecutors s' = (if start_throws cell s then numExecutors s else data_numExecutors d)"
    and "display_mode s' = display_mode s"
    and "getCurrentlyActiveCell s' = Some cell"
    and "cellmonitors s' =
           (if creates_monitor cell s then AList.update cell new (cellmonitors s)
            else cellmonitors s)"
    and "length (heap s') = (if creates_monitor cell s then Suc new else new)"
    and "trace s' =
           trace s @ [console_log (''SparkMonitor: Job Start at cell: '' @ cell @ '' [object Object]'')]
           @ (if creates_monitor cell s
              then (case getCellMonitor cell s of Monitor b \<Rightarrow> [RemoveDisplay b] | _ \<Rightarrow> [])
                   @ [Constructed new cell, Forward new JobStart d]
              else (case getCellMonitor cell s of Monitor a \<Rightarrow> [Forward a JobStart d] | _ \<Rightarrow> []))"
    by (fact c)+
qed

lemma jobStart_no_cell:
  "getCurrentlyActiveCell s = None \<Longrightarrow> onSparkJobStart CM u d s = Throws TypeError s"
  by (simp add: onSparkJobStart_def)

lemma same_onSparkJobStart_hidden:
  assumes "display_mode s = hidden"
  shows "same_monitors s (after (onSparkJobStart CM u d s))"
proof (cases "getCurrentlyActiveCell s")
  case None
  then show ?thesis by (simp add: jobStart_no_cell same_monitors_def)
next
  case (Some c0)
  have no: "\<not> creates_monitor (if c0 = '''' then u else c0) s"
    using assms by (simp add: creates_monitor_def)
  note js = jobStart_active [OF Some refl refl refl, where u = u and CM = CM and d = d]
  show ?thesis
    unfolding same_monitors_def using no js(8) js(9) by simp
qed

lemma onSparkJobStart_monitors:
  "same_monitors s (after (onSparkJobStart CM u d s)) \<or>
   (\<exists>c. getCellMonitor c s \<noteq> Inherited \<and>
        cellmonitors (after (onSparkJobStart CM u d s))
           = AList.update c (length (heap s)) (cellmonitors s) \<and>
        length (heap (after (onSparkJobStart CM u d s))) = Suc (length (heap s)))"
proof (cases "getCurrentlyActiveCell s")
  case None
  then show ?thesis by (simp add: jobStart_no_cell same_monitors_def)
next
  case (Some c0)
  let ?c = "if c0 = '''' then u else c0"
  note js = jobStart_active [OF Some refl refl refl, where u = u and CM = CM and d = d]
  show ?thesis
  proof (cases "creates_monitor ?c s")
    case True
    then have "getCellMonitor ?c s \<noteq> Inherited"
      by (auto simp add: creates_monitor_def)
    moreover have "cellmonitors (after (onSparkJobStart CM u d s))
           = AList.update ?c (length (heap s)) (cellmonitors s)"
      using True js(8) by simp
    moreover have "length (heap (after (onSparkJobStart CM u d s))) = Suc (length (heap s))"
      using True js(9) by simp
    ultimately show ?thesis by blast
  next
    case False
    then show ?thesis
      unfolding same_monitors_def using js(8) js(9) by simp
  qed
qed

lemma not_inherited_key:
  assumes "monitors_ok s" and "getCellMonitor c s \<noteq> Inherited"
  shows "c \<notin> set Object_prototype"
proof (cases "getCellMonitor c s")
  case Absent
  then show ?thesis
    by (auto simp add: getCellMonitor_def property_def split: option.splits if_splits)
next
  case Inherited
  with assms(2) show ?thesis by simp
next
  case (Monitor a)
  from monitors_ok_key(1) [OF assms(1) Monitor] show ?thesis .
qed

lemma monitors_ok_update:
  assumes "monitors_ok s" and "getCellMonitor c s \<noteq> Inherited"
    and "cellmonitors t = AList.update c (length (heap s)) (cellmonitors s)"
    and "length (heap t) = Suc (length (heap s))"
  shows "monitors_ok t"
  using assms(1) update_fresh_ok [of "cellmonitors s" "length (heap s)" c]
    update_keys_ok [of "\<lambda>i. i \<notin> set Object_prototype" "cellmonitors s" c "length (heap s)"]
    not_inherited_key [OF assms(1,2)]
  by (simp add: monitors_ok_def assms(3,4))

lemma monitors_ok_jobStart: "monitors_ok s \<Longrightarrow> monitors_ok (after (onSparkJobStart CM u d s))"
  using onSparkJobStart_monitors [of s CM u d] monitors_ok_update monitors_ok_same
  by blast

lemma monitors_ok_dispatch: "monitors_ok s \<Longrightarrow> monitors_ok (after (dispatch CM u d s))"
proof (cases "data_msgtype d = ''sparkJobStart''")
  case True
  assume "monitors_ok s"
  with True show ?thesis by (simp add: dispatch_def monitors_ok_jobStart)
next
  case False
  assume "monitors_ok s"
  with same_dispatch_other [OF False] show ?thesis by (rule monitors_ok_same)
qed

lemma monitors_ok_handleMessage: "monitors_ok s \<Longrightarrow> monitors_ok (after (handleMessage CM u m s))"
proof -
  assume ok: "monitors_ok s"
  let ?s1 = "console (console_warn ''SparkMonitor: Unknown message'') s"
  have "monitors_ok ?s1" using ok by (simp add: monitors_ok_def)
  then have "monitors_ok (after (dispatch CM u (msg m) ?s1))" by (rule monitors_ok_dispatch)
  moreover have "monitors_ok (after (dispatch CM u (msg m) s))" using ok by (rule monitors_ok_dispatch)
  ultimately show ?thesis using ok \<open>monitors_ok ?s1\<close>
    by (simp add: handleMessage_def Let_def)
qed

lemma reachable_monitors_ok: "reachable CM s \<Longrightarrow> monitors_ok s"
proof (induction rule: reachable.induct)
  case (constructed l)
  show ?case by (simp add: monitors_ok_def constructor_def)
next
  case (host s l)
  then show ?case by (simp add: monitors_ok_def)
next
  case (message s u m)
  then show ?case by (simp add: monitors_ok_handleMessage)
next
  case (handler s u d)
  then show ?case by (simp add: monitors_ok_dispatch)
next
  case (started s c)
  then show ?case by (simp add: monitors_ok_start)
next
  case (stopped s i)
  then show ?case by (simp add: monitors_ok_stop)
next
  case (removed s i)
  then show ?case by (simp add: monitors_ok_removed)
next
  case (shown s)
  then show ?case using same_showAll monitors_ok_same by blast
next
  case (hidden s)
  then show ?case using same_hideAll monitors_ok_same by blast
next
  case (toggled s)
  then show ?case using same_toggleAll monitors_ok_same by blast
qed

subsection \<open>Eviction and the executor count\<close>

lemma getCellMonitor_stop:
  "getCellMonitor i (after (stopCellMonitor CM i s)) =
     (if i \<in> set Object_prototype then Inherited else Absent)"
  by (simp add: getCellMonitor_def)

lemma getCellMonitor_removed:
  "getCellMonitor i (after (onCellRemoved CM i s)) =
     (if i \<in> set Object_prototype then Inherited else Absent)"
  by (simp add: getCellMonitor_def)

lemma update_drops_old:
  "distinct (map snd xs) \<Longrightarrow> map_of xs k = Some a \<Longrightarrow> a \<noteq> n \<Longrightarrow>
   a \<notin> snd ` set (AList.update k n xs)"
proof (induction xs)
  case Nil
  then show ?case by simp
next
  case (Cons p xs)
  then show ?case
    by (cases p) (force simp add: AList.dom_update split: if_splits dest: map_of_SomeD)
qed

lemma executorAdded_fields:
  "numExecutors (after (onSparkExecutorAdded CM d s)) = numExecutors s + 1"
  "totalCores (after (onSparkExecutorAdded CM d s)) = data_totalCores d"
  by (simp_all add: onSparkExecutorAdded_def Let_def split: option.split)

lemma executorRemoved_fields:
  "numExecutors (after (onSparkExecutorRemoved CM d s)) = numExecutors s - 1"
  "totalCores (after (onSparkExecutorRemoved CM d s)) = data_totalCores d"
  by (simp_all add: onSparkExecutorRemoved_def Let_def split: option.split)

lemma executorRemoved_iterated:
  "numExecutors (((\<lambda>s. after (onSparkExecutorRemoved CM d s)) ^^ n) s) = numExecutors s - int n"
  by (induction n) (simp_all add: executorRemoved_fields)

subsection \<open>Hidden mode, dispatch and job end\<close>

lemma handleMessage_hidden: "display_mode s = hidden \<Longrightarrow> handleMessage CM u m s = Returns s"
  by (simp add: handleMessage_def)

lemma creates_monitor_hidden: "display_mode s = hidden \<Longrightarrow> \<not> creates_monitor cell s"
  by (simp add: creates_monitor_def)

lemma start_throws_hidden: "display_mode s = hidden \<Longrightarrow> \<not> start_throws cell s"
  by (simp add: start_throws_def)

lemma handleMessage_shown_fromscala:
  "display_mode s = shown \<Longrightarrow> msgtype m = ''fromscala'' \<Longrightarrow>
   handleMessage CM u m s = dispatch CM u (msg m) s"
  by (simp add: handleMessage_def)

lemma same_handleMessage_other:
  assumes "data_msgtype (msg m) \<noteq> ''sparkJobStart''"
  shows "same_monitors s (after (handleMessage CM u m s))"
proof -
  let ?s1 = "console (console_warn ''SparkMonitor: Unknown message'') s"
  have "same_monitors ?s1 (after (dispatch CM u (msg m) ?s1))"
    using assms by (rule same_dispatch_other)
  moreover have "same_monitors s (after (dispatch CM u (msg m) s))"
    using assms by (rule same_dispatch_other)
  ultimately show ?thesis
    by (simp add: handleMessage_def Let_def same_monitors_def)
qed


subsection \<open>Keys of \<open>this.data\<close>\<close>






subsection \<open>Steps that leave a job alone\<close>









lemma harmless_event_console [simp]:
  "harmless_event c j u d (console x s) = harmless_event c j u d s"
  by (simp add: harmless_event_def getCurrentlyActiveCell_def Let_def split: option.split)



subsection \<open>The concrete states\<close>

lemmas run_defs =
  handleMessage_def fromscala_def dispatch_def constructor_def onSparkJobStart_def
  onSparkJobEnd_def getCurrentlyActiveCell_def cell_c1_def Let_def console_def
  getCellMonitor_def startCellMonitor_def stopCellMonitor_def cellExecutedAgain_def
  forward_def call_event_def call_removeDisplay_def plainMonitor_def payload_def
  job_key_def String.simps hideAll_def hideAll_step_def showAll_def property_def
  Object_prototype_def run_def onSparkApplicationStart_def

lemma shown_c1_fields:
  "listener shown_c1 = cell_c1" "cellmonitors shown_c1 = [(''c1'', 0)]" "heap shown_c1 = [True]"
  "cellExecCountSinceSparkJobStart shown_c1 = 1"
  "data shown_c1 = [''appNULLjob0'' \<mapsto> ''c1'']" "app shown_c1 = ''NULL''"
  "totalCores shown_c1 = 16" "numExecutors shown_c1 = 2" "display_mode shown_c1 = shown"
  "trace shown_c1 = [console_log ''SparkMonitor: Starting Comm with kernel.'',
      console_log ''SparkMonitor: Job Start at cell: c1 [object Object]'',
      Constructed 0 ''c1'', Forward 0 JobStart (payload\<lparr>data_msgtype := ''sparkJobStart''\<rparr>)]"
  by (simp_all add: shown_c1_def run_defs)

lemma hidden_c1_fields:
  "listener hidden_c1 = cell_c1" "cellmonitors hidden_c1 = [(''c1'', 0)]" "heap hidden_c1 = [False]"
  "cellExecCountSinceSparkJobStart hidden_c1 = 1"
  "data hidden_c1 = [''appNULLjob0'' \<mapsto> ''c1'']" "app hidden_c1 = ''NULL''"
  "totalCores hidden_c1 = 16" "numExecutors hidden_c1 = 2" "display_mode hidden_c1 = hidden"
  "trace hidden_c1 = [console_log ''SparkMonitor: Starting Comm with kernel.'',
      console_log ''SparkMonitor: Job Start at cell: c1 [object Object]'',
      Constructed 0 ''c1'', Forward 0 JobStart (payload\<lparr>data_msgtype := ''sparkJobStart''\<rparr>),
      RemoveDisplay 0]"
  by (simp_all add: hidden_c1_def hideAll_def hideAll_step_def shown_c1_fields
        call_removeDisplay_def plainMonitor_def)

lemma hidden_fresh_fields:
  "listener hidden_fresh = cell_c1" "cellmonitors hidden_fresh = []" "heap hidden_fresh = []"
  "cellExecCountSinceSparkJobStart hidden_fresh = 0"
  "data hidden_fresh = Map.empty" "app hidden_fresh = ''NULL''"
  "display_mode hidden_fresh = hidden"
  "trace hidden_fresh = [console_log ''SparkMonitor: Starting Comm with kernel.'']"
  by (simp_all add: hidden_fresh_def hideAll_def constructor_def)

lemma reachable_rerun_c1: "reachable plainMonitor rerun_c1"
  unfolding rerun_c1_def shown_c1_def
  by (intro reachable.host reachable.message reachable.constructed)



lemma hidden_rerun_c1_fields:
  "listener hidden_rerun_c1 = cell_c1\<lparr>numCellsExecuted := 2\<rparr>"
  "cellmonitors hidden_rerun_c1 = [(''c1'', 0)]" "heap hidden_rerun_c1 = [False]"
  "cellExecCountSinceSparkJobStart hidden_rerun_c1 = 1"
  "display_mode hidden_rerun_c1 = hidden"
  "trace hidden_rerun_c1 = trace shown_c1 @ [RemoveDisplay 0]"
  by (simp_all add: hidden_rerun_c1_def rerun_c1_def hideAll_def hideAll_step_def shown_c1_fields
        call_removeDisplay_def plainMonitor_def)

section \<open>The claims\<close>

subsection \<open>C1: job end for a job that was never recorded\<close>

text \<open>
  Claim C1. For a job-end event whose jobId has no entry in \<open>this.data\<close> under the
  current \<open>this.app\<close>, \<open>onSparkJobEnd\<close> is claimed to log an error, leave the state
  unchanged and let no exception out. The code reads \<open>.cell_id\<close> of the missing entry
  first: in every state without the entry the call ends in a \<open>TypeError\<close>, with the state
  (and so the console) untouched. In particular (Scenario B) a job end for jobId 99 on a
  new engine throws, called directly or through \<open>handleMessage\<close>, and the console holds
  nothing but the line the constructor wrote. The same happens to the job end of a job
  whose start arrived while the displays were hidden (\<open>hideAll()\<close>, job start,
  \<open>showAll()\<close>, job end): the start was ignored, so the end finds no record.
\<close>

theorem onSparkJobEnd_unknown_job_throws:
  "onSparkJobEnd CM d (s\<lparr>data := (data s)(job_key (app s) (data_jobId d) := None)\<rparr>)
     = Throws TypeError (s\<lparr>data := (data s)(job_key (app s) (data_jobId d) := None)\<rparr>) \<and>
   onSparkJobEnd CM (d\<lparr>data_jobId := 99\<rparr>) (constructor l) = Throws TypeError (constructor l) \<and>
   handleMessage CM u
       \<lparr>msgtype = ''fromscala'', msg = d\<lparr>data_msgtype := ''sparkJobEnd'', data_jobId := 99\<rparr>\<rparr>
       (constructor l) = Throws TypeError (constructor l) \<and>
   trace (constructor l :: 'm SparkMonitor)
     = [console_log ''SparkMonitor: Starting Comm with kernel.''] \<and>
   handleMessage CM u
       \<lparr>msgtype = ''fromscala'', msg = d\<lparr>data_msgtype := ''sparkJobEnd'', data_jobId := 99\<rparr>\<rparr>
       (showAll (after (handleMessage CM u
          \<lparr>msgtype = ''fromscala'', msg = d\<lparr>data_msgtype := ''sparkJobStart'', data_jobId := 99\<rparr>\<rparr>
          (hideAll CM (constructor l)))))
     = Throws TypeError (showAll (hideAll CM (constructor l)))"
  by (simp add: onSparkJobEnd_def handleMessage_def dispatch_def constructor_def hideAll_def
        showAll_def)

subsection \<open>C2: job start with no running cell\<close>

text \<open>
  Claim C2. A job start while the listener reports no running cell is claimed to be
  reported and dropped without a crash. The code reads \<open>cell.id\<close> before it tests
  \<open>cell === null\<close>: in every state whose active cell is \<open>null\<close> the call ends in a
  \<open>TypeError\<close> with the state untouched and nothing logged (the console of a new engine
  holds only the constructor's line), also through \<open>handleMessage\<close> on a new engine. The
  second half of the claim holds: a running cell with the empty id gets the fresh id
  before anything else is done, and the job is recorded under that id, in every case in
  which the handler gets as far as recording the job (it does not when
  \<open>startCellMonitor\<close> throws, which takes a fresh id that is the name of a member of
  \<open>Object.prototype\<close>).
\<close>

theorem onSparkJobStart_no_cell_throws:
  "onSparkJobStart CM u d (s\<lparr>listener := (listener s)\<lparr>activeCell := None\<rparr>\<rparr>)
     = Throws TypeError (s\<lparr>listener := (listener s)\<lparr>activeCell := None\<rparr>\<rparr>) \<and>
   handleMessage CM u \<lparr>msgtype = ''fromscala'', msg = d\<lparr>data_msgtype := ''sparkJobStart''\<rparr>\<rparr>
       (constructor no_cell) = Throws TypeError (constructor no_cell) \<and>
   trace (constructor no_cell :: 'm SparkMonitor)
     = [console_log ''SparkMonitor: Starting Comm with kernel.''] \<and>
   getCurrentlyActiveCell
     (after (onSparkJobStart CM u d (s\<lparr>listener := (listener s)\<lparr>activeCell := Some ''''\<rparr>\<rparr>)))
     = Some u \<and>
   data (after (onSparkJobStart CM u d (s\<lparr>listener := (listener s)\<lparr>activeCell := Some ''''\<rparr>\<rparr>)))
        (job_key (app s) (data_jobId d))
     = (if start_throws u (s\<lparr>listener := (listener s)\<lparr>activeCell := Some ''''\<rparr>\<rparr>)
        then data s (job_key (app s) (data_jobId d))
        else Some u)"
proof -
  let ?t = "s\<lparr>listener := (listener s)\<lparr>activeCell := Some ''''\<rparr>\<rparr>"
  have active: "getCurrentlyActiveCell ?t = Some ''''"
    by (simp add: getCurrentlyActiveCell_def)
  note js = jobStart_active [OF active refl refl refl, where u = u and CM = CM and d = d]
  have "getCurrentlyActiveCell (after (onSparkJobStart CM u d ?t)) = Some u"
    using js(7) by simp
  moreover have "data (after (onSparkJobStart CM u d ?t)) (job_key (app s) (data_jobId d))
      = (if start_throws u ?t then data s (job_key (app s) (data_jobId d)) else Some u)"
    using js(2) by simp
  moreover have
    "onSparkJobStart CM u d (s\<lparr>listener := (listener s)\<lparr>activeCell := None\<rparr>\<rparr>)
       = Throws TypeError (s\<lparr>listener := (listener s)\<lparr>activeCell := None\<rparr>\<rparr>)"
    by (simp add: onSparkJobStart_def getCurrentlyActiveCell_def)
  moreover have
    "handleMessage CM u \<lparr>msgtype = ''fromscala'', msg = d\<lparr>data_msgtype := ''sparkJobStart''\<rparr>\<rparr>
       (constructor no_cell) = Throws TypeError (constructor no_cell)"
    by (simp add: onSparkJobStart_def handleMessage_def dispatch_def constructor_def
        getCurrentlyActiveCell_def no_cell_def)
  moreover have "trace (constructor no_cell :: 'm SparkMonitor)
      = [console_log ''SparkMonitor: Starting Comm with kernel.'']"
    by (simp add: constructor_def)
  ultimately show ?thesis by simp
qed

subsection \<open>C3: stage and task events for a stage that was never recorded\<close>

text \<open>
  Claim C3. A stage-completed, task-start or task-end event whose stageId has no entry
  in \<open>this.data\<close> is claimed to log an error and return. All three handlers read
  \<open>.cell_id\<close> of the missing entry: in every state without the entry each ends in a
  \<open>TypeError\<close> and no error is logged (\<open>onSparkStageCompleted\<close> has written its
  "Stage Completed" log line before). So does a task end on a new engine through
  \<open>handleMessage\<close>, and a task start for a stage that was submitted while the displays
  were hidden.
\<close>

theorem stage_events_unknown_stage_throw:
  "onSparkStageCompleted CM d (s\<lparr>data := (data s)(stage_key (app s) (data_stageId d) := None)\<rparr>)
     = Throws TypeError
         (console (console_log ''SparkMonitor:Stage Completed'')
            (s\<lparr>data := (data s)(stage_key (app s) (data_stageId d) := None)\<rparr>)) \<and>
   onSparkTaskStart CM d (s\<lparr>data := (data s)(stage_key (app s) (data_stageId d) := None)\<rparr>)
     = Throws TypeError (s\<lparr>data := (data s)(stage_key (app s) (data_stageId d) := None)\<rparr>) \<and>
   onSparkTaskEnd CM d (s\<lparr>data := (data s)(stage_key (app s) (data_stageId d) := None)\<rparr>)
     = Throws TypeError (s\<lparr>data := (data s)(stage_key (app s) (data_stageId d) := None)\<rparr>) \<and>
   handleMessage CM u \<lparr>msgtype = ''fromscala'', msg = d\<lparr>data_msgtype := ''sparkTaskEnd''\<rparr>\<rparr>
       (constructor l) = Throws TypeError (constructor l) \<and>
   handleMessage CM u \<lparr>msgtype = ''fromscala'', msg = d\<lparr>data_msgtype := ''sparkTaskStart''\<rparr>\<rparr>
       (showAll (after (handleMessage CM u
          \<lparr>msgtype = ''fromscala'', msg = d\<lparr>data_msgtype := ''sparkStageSubmitted''\<rparr>\<rparr>
          (hideAll CM (constructor l)))))
     = Throws TypeError (showAll (hideAll CM (constructor l)))"
  by (simp add: onSparkStageCompleted_def onSparkTaskStart_def onSparkTaskEnd_def
      handleMessage_def dispatch_def constructor_def console_def hideAll_def showAll_def)

subsection \<open>C4: job end goes to the monitor of the cell that started the job\<close>




subsection \<open>C5: job start while the displays are hidden\<close>

text \<open>
  Claim C5 says that a job start arriving while the mode is \<open>hidden\<close> is booked (the
  job recorded, \<open>totalCores\<close> and \<open>numExecutors\<close> updated) and then dropped without a
  monitor being created. It fails in the state reached by one job start of cell \<open>c1\<close>
  followed by \<open>hideAll()\<close>: a job start for jobId 7 that arrives through
  \<open>handleMessage\<close> leaves the state as it was, so nothing is recorded for job 7; and a
  direct call of \<open>onSparkJobStart\<close> is not dropped but forwarded to the monitor that
  cell \<open>c1\<close> already has.
\<close>

theorem hidden_job_start_counterexample:
  "display_mode hidden_c1 = hidden \<and>
   handleMessage plainMonitor ''u2'' \<lparr>msgtype = ''fromscala'', msg = job7\<rparr> hidden_c1
     = Returns hidden_c1 \<and>
   data hidden_c1 (job_key (app hidden_c1) (data_jobId job7)) = None \<and>
   trace (after (onSparkJobStart plainMonitor ''u2'' job7 hidden_c1))
     = trace hidden_c1 @ [console_log ''SparkMonitor: Job Start at cell: c1 [object Object]'',
                          Forward 0 JobStart job7]"
  by (simp add: handleMessage_hidden hidden_c1_fields job7_def job_key_def String.simps
        payload_def onSparkJobStart_def getCurrentlyActiveCell_def cell_c1_def Let_def
        getCellMonitor_def property_def forward_def call_event_def console_def)

text \<open>
  Claim C5 as amended. While the mode is \<open>hidden\<close>, \<open>handleMessage\<close> returns at once
  and changes nothing, whatever the message. A call of \<open>onSparkJobStart\<close> itself, with a
  running cell, records the cell's id under the key of the app instance and the jobId,
  sets \<open>totalCores\<close> and \<open>numExecutors\<close> from the event, creates no monitor (same
  dictionary, no new object), and forwards the event to the monitor the cell already
  has, if any; with no such monitor the event goes nowhere. The call returns, unless
  the cell's id is the name of a member of \<open>Object.prototype\<close>: then the same has been
  done when the final call on that member ends in a \<open>TypeError\<close>.
\<close>

theorem hidden_job_start:
  assumes "display_mode s = hidden"
  shows "handleMessage CM u m s = Returns s \<and>
         (\<forall>c0. getCurrentlyActiveCell s = Some c0 \<longrightarrow>
            (let cell = (if c0 = '''' then u else c0);
                 s' = after (onSparkJobStart CM u d s)
             in onSparkJobStart CM u d s =
                  (if getCellMonitor cell s = Inherited then Throws TypeError s' else Returns s') \<and>
                data s' = (data s)(job_key (app s) (data_jobId d) \<mapsto> cell) \<and>
                totalCores s' = data_totalCores d \<and>
                numExecutors s' = data_numExecutors d \<and>
                cellmonitors s' = cellmonitors s \<and>
                length (heap s') = length (heap s) \<and>
                trace s' =
                  trace s @ [console_log (''SparkMonitor: Job Start at cell: '' @ cell
                                          @ '' [object Object]'')]
                  @ (case getCellMonitor cell s of
                       Monitor a \<Rightarrow> [Forward a JobStart d]
                     | _ \<Rightarrow> [])))"
proof (intro conjI allI impI)
  show "handleMessage CM u m s = Returns s"
    using assms by (rule handleMessage_hidden)
next
  fix c0
  assume active: "getCurrentlyActiveCell s = Some c0"
  note js = jobStart_active [OF active refl refl refl, where u = u and CM = CM and d = d]
  have no: "\<not> creates_monitor (if c0 = '''' then u else c0) s"
    using assms by (rule creates_monitor_hidden)
  have nt: "\<not> start_throws (if c0 = '''' then u else c0) s"
    using assms by (rule start_throws_hidden)
  show "let cell = (if c0 = '''' then u else c0);
            s' = after (onSparkJobStart CM u d s)
        in onSparkJobStart CM u d s =
             (if getCellMonitor cell s = Inherited then Throws TypeError s' else Returns s') \<and>
           data s' = (data s)(job_key (app s) (data_jobId d) \<mapsto> cell) \<and>
           totalCores s' = data_totalCores d \<and>
           numExecutors s' = data_numExecutors d \<and>
           cellmonitors s' = cellmonitors s \<and>
           length (heap s') = length (heap s) \<and>
           trace s' =
             trace s @ [console_log (''SparkMonitor: Job Start at cell: '' @ cell
                                     @ '' [object Object]'')]
             @ (case getCellMonitor cell s of
                  Monitor a \<Rightarrow> [Forward a JobStart d]
                | _ \<Rightarrow> [])"
    unfolding Let_def
    using js(1) js(2) js(4) js(5) js(8) js(9) js(10) no nt by simp
qed

theorem hidden_job_start_witness:
  "display_mode hidden_c1 = hidden \<and>
   getCurrentlyActiveCell hidden_c1 = Some ''c1'' \<and>
   handleMessage plainMonitor ''u2'' \<lparr>msgtype = ''fromscala'', msg = job7\<rparr> hidden_c1
     = Returns hidden_c1 \<and>
   onSparkJobStart plainMonitor ''u2'' job7 hidden_c1
     = Returns (after (onSparkJobStart plainMonitor ''u2'' job7 hidden_c1)) \<and>
   data (after (onSparkJobStart plainMonitor ''u2'' job7 hidden_c1)) ''appNULLjob7'' = Some ''c1'' \<and>
   totalCores (after (onSparkJobStart plainMonitor ''u2'' job7 hidden_c1)) = 16 \<and>
   numExecutors (after (onSparkJobStart plainMonitor ''u2'' job7 hidden_c1)) = 2 \<and>
   cellmonitors (after (onSparkJobStart plainMonitor ''u2'' job7 hidden_c1)) = [(''c1'', 0)] \<and>
   length (heap (after (onSparkJobStart plainMonitor ''u2'' job7 hidden_c1))) = 1"
proof -
  have h: "display_mode hidden_c1 = hidden"
    by (simp add: hidden_c1_fields)
  have a: "getCurrentlyActiveCell hidden_c1 = Some ''c1''"
    by (simp add: getCurrentlyActiveCell_def hidden_c1_fields cell_c1_def)
  have n: "getCellMonitor ''c1'' hidden_c1 = Monitor 0"
    by (simp add: getCellMonitor_def property_def hidden_c1_fields)
  from hidden_job_start [OF h, of plainMonitor "''u2''" "\<lparr>msgtype = ''fromscala'', msg = job7\<rparr>" job7] a h n
  show ?thesis
    by (simp add: Let_def hidden_c1_fields job7_def payload_def job_key_def String.simps)
qed

subsection \<open>C6: no monitor is created while hidden, nor by showAll\<close>

text \<open>
  Claim C6. While the mode is \<open>hidden\<close>, a job start creates no monitor, whatever the
  execution counts say: \<open>onSparkJobStart\<close> leaves the dictionary and the number of
  monitor objects as they are, and \<open>handleMessage\<close> changes nothing at all. \<open>showAll()\<close>
  only sets the mode. After it, a message of any kind other than a job start still
  leaves the dictionary and the number of objects as they are, and a job-start message
  for a running cell that has no monitor creates one: it is the next object, entered
  under the cell's id, constructed and then handed the event.
\<close>

theorem hidden_creates_no_monitor:
  assumes "display_mode s = hidden"
  shows "cellmonitors (after (onSparkJobStart CM u d s)) = cellmonitors s \<and>
         length (heap (after (onSparkJobStart CM u d s))) = length (heap s) \<and>
         handleMessage CM u m s = Returns s \<and>
         showAll s = s\<lparr>display_mode := shown\<rparr> \<and>
         (data_msgtype (msg m) \<noteq> ''sparkJobStart'' \<longrightarrow>
            cellmonitors (after (handleMessage CM u m (showAll s))) = cellmonitors s \<and>
            length (heap (after (handleMessage CM u m (showAll s)))) = length (heap s)) \<and>
         (\<forall>c0. msgtype m = ''fromscala'' \<and> data_msgtype (msg m) = ''sparkJobStart'' \<and>
               getCurrentlyActiveCell s = Some c0 \<and>
               getCellMonitor (if c0 = '''' then u else c0) s = Absent \<longrightarrow>
            (let cell = (if c0 = '''' then u else c0);
                 s' = after (handleMessage CM u m (showAll s))
             in handleMessage CM u m (showAll s) = Returns s' \<and>
                getCellMonitor cell s' = Monitor (length (heap s)) \<and>
                length (heap s') = Suc (length (heap s)) \<and>
                trace s' =
                  trace s @ [console_log (''SparkMonitor: Job Start at cell: '' @ cell
                                          @ '' [object Object]''),
                             Constructed (length (heap s)) cell,
                             Forward (length (heap s)) JobStart (msg m)]))"
proof (intro conjI allI impI)
  from same_onSparkJobStart_hidden [OF assms, of CM u d]
  show "cellmonitors (after (onSparkJobStart CM u d s)) = cellmonitors s"
    and "length (heap (after (onSparkJobStart CM u d s))) = length (heap s)"
    by (simp_all add: same_monitors_def)
  show "handleMessage CM u m s = Returns s"
    using assms by (rule handleMessage_hidden)
  show "showAll s = s\<lparr>display_mode := shown\<rparr>"
    by (simp add: showAll_def)
next
  assume other: "data_msgtype (msg m) \<noteq> ''sparkJobStart''"
  from same_handleMessage_other [OF other, of "showAll s" CM u]
  show "cellmonitors (after (handleMessage CM u m (showAll s))) = cellmonitors s"
    and "length (heap (after (handleMessage CM u m (showAll s)))) = length (heap s)"
    by (simp_all add: same_monitors_def showAll_def)
next
  fix c0
  assume a: "msgtype m = ''fromscala'' \<and> data_msgtype (msg m) = ''sparkJobStart'' \<and>
             getCurrentlyActiveCell s = Some c0 \<and>
             getCellMonitor (if c0 = '''' then u else c0) s = Absent"
  let ?cell = "if c0 = '''' then u else c0"
  let ?t = "showAll s"
  have hm: "handleMessage CM u m ?t = onSparkJobStart CM u (msg m) ?t"
    using a by (simp add: handleMessage_shown_fromscala showAll_def dispatch_def)
  have active: "getCurrentlyActiveCell ?t = Some c0"
    using a by (simp add: getCurrentlyActiveCell_def showAll_def)
  have none: "getCellMonitor ?cell ?t = Absent"
    using a by (simp add: getCellMonitor_def showAll_def)
  have go: "creates_monitor ?cell ?t"
    using none by (simp add: creates_monitor_def showAll_def)
  note js = jobStart_active [OF active refl refl refl, where u = u and CM = CM and d = "msg m"]
  have fr: "cellmonitors ?t = cellmonitors s" "heap ?t = heap s" "trace ?t = trace s"
    by (simp_all add: showAll_def)
  show "let cell = ?cell; s' = after (handleMessage CM u m ?t)
        in handleMessage CM u m ?t = Returns s' \<and>
           getCellMonitor cell s' = Monitor (length (heap s)) \<and>
           length (heap s') = Suc (length (heap s)) \<and>
           trace s' =
             trace s @ [console_log (''SparkMonitor: Job Start at cell: '' @ cell
                                     @ '' [object Object]''),
                        Constructed (length (heap s)) cell,
                        Forward (length (heap s)) JobStart (msg m)]"
    unfolding Let_def hm
    using js(1) js(8) js(9) js(10) go none
    by (simp add: fr getCellMonitor_def)
qed

text \<open>
  Scenario C: \<open>hideAll()\<close> on a new engine whose running cell is \<open>c1\<close>, a job start, then
  \<open>showAll()\<close>, a task end and a second job start.
\<close>

theorem hidden_creates_no_monitor_witness:
  "display_mode hidden_fresh = hidden \<and>
   cellmonitors (after (onSparkJobStart plainMonitor ''u2'' job7 hidden_fresh)) = [] \<and>
   handleMessage plainMonitor ''u2'' (fromscala ''sparkJobStart'') hidden_fresh = Returns hidden_fresh \<and>
   cellmonitors (showAll hidden_fresh) = [] \<and>
   cellmonitors (after (handleMessage plainMonitor ''u2'' (fromscala ''sparkTaskEnd'')
                   (showAll hidden_fresh))) = [] \<and>
   getCellMonitor ''c1'' (after (handleMessage plainMonitor ''u2'' (fromscala ''sparkJobStart'')
                   (showAll hidden_fresh))) = Monitor 0"
proof -
  have h: "display_mode hidden_fresh = hidden"
    by (simp add: hidden_fresh_fields)
  have a: "getCurrentlyActiveCell hidden_fresh = Some ''c1''"
    by (simp add: getCurrentlyActiveCell_def hidden_fresh_fields cell_c1_def)
  have n: "getCellMonitor ''c1'' hidden_fresh = Absent"
    by (simp add: getCellMonitor_def property_def Object_prototype_def hidden_fresh_fields)
  from hidden_creates_no_monitor [OF h, of plainMonitor "''u2''" job7 "fromscala ''sparkJobStart''"]
       hidden_creates_no_monitor [OF h, of plainMonitor "''u2''" job7 "fromscala ''sparkTaskEnd''"]
       h a n
  show ?thesis
    by (simp add: Let_def hidden_fresh_fields fromscala_def showAll_def)
qed

subsection \<open>C7: one monitor per cell\<close>

text \<open>
  Claim C7 says that a re-run while the cell has a monitor performs one retirement and
  one creation. It fails while the displays are hidden: in the state after one job start
  of cell \<open>c1\<close>, a second execution counted by the listener and \<open>hideAll()\<close>, the cell has
  monitor 0 and the run is new, yet the next job start returns having only written its
  log line and handed the event to monitor 0: no \<open>removeDisplay()\<close>, no new monitor.
\<close>

theorem rerun_while_hidden_counterexample:
  "getCurrentlyActiveCell hidden_rerun_c1 = Some ''c1'' \<and>
   getCellMonitor ''c1'' hidden_rerun_c1 = Monitor 0 \<and>
   cellExecCountSinceSparkJobStart hidden_rerun_c1 < numCellsExecuted (listener hidden_rerun_c1) \<and>
   onSparkJobStart plainMonitor ''u2'' job7 hidden_rerun_c1
     = Returns (after (onSparkJobStart plainMonitor ''u2'' job7 hidden_rerun_c1)) \<and>
   trace (after (onSparkJobStart plainMonitor ''u2'' job7 hidden_rerun_c1))
     = trace hidden_rerun_c1 @ [console_log ''SparkMonitor: Job Start at cell: c1 [object Object]'',
                                Forward 0 JobStart job7] \<and>
   cellmonitors (after (onSparkJobStart plainMonitor ''u2'' job7 hidden_rerun_c1)) = [(''c1'', 0)] \<and>
   length (heap (after (onSparkJobStart plainMonitor ''u2'' job7 hidden_rerun_c1))) = 1"
  by (simp add: hidden_rerun_c1_fields onSparkJobStart_def getCurrentlyActiveCell_def cell_c1_def
        Let_def getCellMonitor_def job7_def payload_def property_def forward_def call_event_def
        console_def)

text \<open>
  Claim C7 as amended. In every reachable state no cell id has two entries in the
  dictionary of monitors. When a job start finds the mode \<open>shown\<close>, a monitor already
  entered for the running cell and a new execution counted by the listener, it returns
  after exactly these calls: the log line, one \<open>removeDisplay()\<close> on the old monitor,
  one construction of a new monitor, and the event handed to the new one; the cell's
  entry is then the new object, the old object is no longer entered under any id, and
  still no id has two entries. When it finds the mode \<open>hidden\<close>, the dictionary and the
  number of monitor objects stay as they are. After \<open>stopCellMonitor(id)\<close>, or after the
  cell-removed signal for \<open>id\<close>, the dictionary has no entry of its own for \<open>id\<close>: reading
  \<open>this.cellmonitors[id]\<close> gives \<open>undefined\<close>, or the inherited member when \<open>id\<close> is the
  name of one; for an id that had a monitor both calls return, the lookup afterwards
  gives \<open>undefined\<close>, and the evicted object is no longer entered under any id.
  \<open>startCellMonitor\<close> itself, called for a cell that has a monitor, returns after exactly
  one \<open>removeDisplay()\<close> call on it followed by one construction, and enters the new
  object.
\<close>

theorem one_monitor_per_cell:
  assumes "reachable CM s"
  shows "distinct (map fst (cellmonitors s)) \<and>
         (getCurrentlyActiveCell s = Some c0 \<and> display_mode s = shown \<and>
          getCellMonitor (if c0 = '''' then u else c0) s = Monitor a \<and>
          numCellsExecuted (listener s) > cellExecCountSinceSparkJobStart s \<longrightarrow>
            (let cell = (if c0 = '''' then u else c0);
                 s' = after (onSparkJobStart CM u d s);
                 new = length (heap s)
             in onSparkJobStart CM u d s = Returns s' \<and>
                trace s' =
                  trace s @ [console_log (''SparkMonitor: Job Start at cell: '' @ cell
                                          @ '' [object Object]''),
                             RemoveDisplay a, Constructed new cell, Forward new JobStart d] \<and>
                getCellMonitor cell s' = Monitor new \<and>
                new \<noteq> a \<and>
                a \<notin> snd ` set (cellmonitors s') \<and>
                distinct (map fst (cellmonitors s')))) \<and>
         (display_mode s = hidden \<longrightarrow>
            cellmonitors (after (onSparkJobStart CM u d s)) = cellmonitors s \<and>
            length (heap (after (onSparkJobStart CM u d s))) = length (heap s)) \<and>
         getCellMonitor i (after (stopCellMonitor CM i s))
           = (if i \<in> set Object_prototype then Inherited else Absent) \<and>
         getCellMonitor i (after (onCellRemoved CM i s))
           = (if i \<in> set Object_prototype then Inherited else Absent) \<and>
         (getCellMonitor i s = Monitor k \<longrightarrow>
            stopCellMonitor CM i s = Returns (after (stopCellMonitor CM i s)) \<and>
            getCellMonitor i (after (stopCellMonitor CM i s)) = Absent \<and>
            k \<notin> snd ` set (cellmonitors (after (stopCellMonitor CM i s))) \<and>
            onCellRemoved CM i s = Returns (after (onCellRemoved CM i s)) \<and>
            getCellMonitor i (after (onCellRemoved CM i s)) = Absent \<and>
            k \<notin> snd ` set (cellmonitors (after (onCellRemoved CM i s)))) \<and>
         (getCellMonitor c s = Monitor b \<longrightarrow>
            startCellMonitor CM c s = Returns (after (startCellMonitor CM c s)) \<and>
            trace (after (startCellMonitor CM c s))
              = trace s @ [RemoveDisplay b, Constructed (length (heap s)) c] \<and>
            getCellMonitor c (after (startCellMonitor CM c s)) = Monitor (length (heap s)))"
proof -
  have ok: "monitors_ok s"
    using assms by (rule reachable_monitors_ok)
  then have inv: "distinct (map fst (cellmonitors s))"
    by (simp add: monitors_ok_def)
  have stop: "getCellMonitor i (after (stopCellMonitor CM i s))
           = (if i \<in> set Object_prototype then Inherited else Absent)"
    by (rule getCellMonitor_stop)
  have removed: "getCellMonitor i (after (onCellRemoved CM i s))
           = (if i \<in> set Object_prototype then Inherited else Absent)"
    by (rule getCellMonitor_removed)
  have hid: "display_mode s = hidden \<longrightarrow>
            cellmonitors (after (onSparkJobStart CM u d s)) = cellmonitors s \<and>
            length (heap (after (onSparkJobStart CM u d s))) = length (heap s)"
    using same_onSparkJobStart_hidden [of s CM u d] by (simp add: same_monitors_def)
  let ?cell = "if c0 = '''' then u else c0"
  have rerun: "getCurrentlyActiveCell s = Some c0 \<and> display_mode s = shown \<and>
          getCellMonitor ?cell s = Monitor a \<and>
          numCellsExecuted (listener s) > cellExecCountSinceSparkJobStart s \<longrightarrow>
       (let cell = ?cell; s' = after (onSparkJobStart CM u d s); new = length (heap s)
        in onSparkJobStart CM u d s = Returns s' \<and>
           trace s' =
             trace s @ [console_log (''SparkMonitor: Job Start at cell: '' @ cell
                                     @ '' [object Object]''),
                        RemoveDisplay a, Constructed new cell, Forward new JobStart d] \<and>
           getCellMonitor cell s' = Monitor new \<and>
           new \<noteq> a \<and>
           a \<notin> snd ` set (cellmonitors s') \<and>
           distinct (map fst (cellmonitors s')))"
  proof
    assume a: "getCurrentlyActiveCell s = Some c0 \<and> display_mode s = shown \<and>
          getCellMonitor ?cell s = Monitor a \<and>
          numCellsExecuted (listener s) > cellExecCountSinceSparkJobStart s"
    then have active: "getCurrentlyActiveCell s = Some c0"
      by simp
    note js = jobStart_active [OF active refl refl refl, where u = u and CM = CM and d = d]
    have go: "creates_monitor ?cell s"
      using a by (simp add: creates_monitor_def)
    have old': "getCellMonitor ?cell s = Monitor a"
      using a by simp
    then have old: "map_of (cellmonitors s) ?cell = Some a"
      by (simp add: getCellMonitor_def property_Monitor)
    have lt: "a < length (heap s)"
      using monitors_ok_key(2) [OF ok old'] .
    have ok': "monitors_ok (after (onSparkJobStart CM u d s))"
      using ok by (rule monitors_ok_jobStart)
    have gone: "a \<notin> snd ` set (AList.update ?cell (length (heap s)) (cellmonitors s))"
      using ok old lt by (intro update_drops_old) (simp_all add: monitors_ok_def)
    show "let cell = ?cell; s' = after (onSparkJobStart CM u d s); new = length (heap s)
        in onSparkJobStart CM u d s = Returns s' \<and>
           trace s' =
             trace s @ [console_log (''SparkMonitor: Job Start at cell: '' @ cell
                                     @ '' [object Object]''),
                        RemoveDisplay a, Constructed new cell, Forward new JobStart d] \<and>
           getCellMonitor cell s' = Monitor new \<and>
           new \<noteq> a \<and>
           a \<notin> snd ` set (cellmonitors s') \<and>
           distinct (map fst (cellmonitors s'))"
      unfolding Let_def
      using js(1) js(8) js(10) go old' lt gone ok'
      by (simp add: getCellMonitor_def monitors_ok_def)
  qed
  have evict: "getCellMonitor i s = Monitor k \<longrightarrow>
            stopCellMonitor CM i s = Returns (after (stopCellMonitor CM i s)) \<and>
            getCellMonitor i (after (stopCellMonitor CM i s)) = Absent \<and>
            k \<notin> snd ` set (cellmonitors (after (stopCellMonitor CM i s))) \<and>
            onCellRemoved CM i s = Returns (after (onCellRemoved CM i s)) \<and>
            getCellMonitor i (after (onCellRemoved CM i s)) = Absent \<and>
            k \<notin> snd ` set (cellmonitors (after (onCellRemoved CM i s)))"
  proof
    assume m: "getCellMonitor i s = Monitor k"
    from monitors_ok_key(1) [OF ok m] have key: "i \<notin> set Object_prototype" .
    from m have own: "map_of (cellmonitors s) i = Some k"
      by (simp add: getCellMonitor_def property_Monitor)
    have d: "distinct (map snd (cellmonitors s))"
      using ok by (simp add: monitors_ok_def)
    have gone: "k \<notin> snd ` set (AList.delete i (cellmonitors s))"
    proof
      assume "k \<in> snd ` set (AList.delete i (cellmonitors s))"
      then obtain j where j: "(j, k) \<in> set (cellmonitors s)" and ne: "j \<noteq> i"
        by (auto simp add: AList.delete_eq)
      from own have "(i, k) \<in> set (cellmonitors s)"
        by (rule map_of_SomeD)
      with j d have "j = i"
        by (metis distinct_map eq_key_imp_eq_value inj_on_def prod.inject snd_conv)
      with ne show False by simp
    qed
    have r1: "stopCellMonitor CM i s = Returns (after (stopCellMonitor CM i s))"
      using m by (intro stopCellMonitor_returns) simp
    have r2: "onCellRemoved CM i s = Returns (after (onCellRemoved CM i s))"
      using m by (simp add: onCellRemoved_def stopCellMonitor_def getCellMonitor_def Let_def)
    show "stopCellMonitor CM i s = Returns (after (stopCellMonitor CM i s)) \<and>
            getCellMonitor i (after (stopCellMonitor CM i s)) = Absent \<and>
            k \<notin> snd ` set (cellmonitors (after (stopCellMonitor CM i s))) \<and>
            onCellRemoved CM i s = Returns (after (onCellRemoved CM i s)) \<and>
            getCellMonitor i (after (onCellRemoved CM i s)) = Absent \<and>
            k \<notin> snd ` set (cellmonitors (after (onCellRemoved CM i s)))"
      using r1 r2 stop removed key gone by simp
  qed
  have direct: "getCellMonitor c s = Monitor b \<longrightarrow>
            startCellMonitor CM c s = Returns (after (startCellMonitor CM c s)) \<and>
            trace (after (startCellMonitor CM c s))
              = trace s @ [RemoveDisplay b, Constructed (length (heap s)) c] \<and>
            getCellMonitor c (after (startCellMonitor CM c s)) = Monitor (length (heap s))"
  proof
    assume m: "getCellMonitor c s = Monitor b"
    then have n: "getCellMonitor c s \<noteq> Inherited"
      by simp
    note st = startCellMonitor_fields [OF n, of CM]
    show "startCellMonitor CM c s = Returns (after (startCellMonitor CM c s)) \<and>
            trace (after (startCellMonitor CM c s))
              = trace s @ [RemoveDisplay b, Constructed (length (heap s)) c] \<and>
            getCellMonitor c (after (startCellMonitor CM c s)) = Monitor (length (heap s))"
      using startCellMonitor_returns [OF n, of CM] st(1) st(3) m
      by (simp add: getCellMonitor_def)
  qed
  from inv rerun hid stop removed evict direct show ?thesis
    by (intro conjI)
qed

text \<open>
  The state after one job start of cell \<open>c1\<close>, once the listener has counted a second
  execution: the next job start retires monitor 0 and creates monitor 1. The same state
  after \<open>hideAll()\<close>: the next job start leaves monitor 0 in place.
\<close>

theorem one_monitor_per_cell_witness:
  "reachable plainMonitor rerun_c1 \<and>
   distinct (map fst (cellmonitors rerun_c1)) \<and>
   getCellMonitor ''c1'' rerun_c1 = Monitor 0 \<and>
   trace (after (onSparkJobStart plainMonitor ''u2'' job7 rerun_c1))
     = trace rerun_c1 @ [console_log ''SparkMonitor: Job Start at cell: c1 [object Object]'',
                         RemoveDisplay 0, Constructed 1 ''c1'', Forward 1 JobStart job7] \<and>
   getCellMonitor ''c1'' (after (onSparkJobStart plainMonitor ''u2'' job7 rerun_c1)) = Monitor 1 \<and>
   getCellMonitor ''c1'' (after (stopCellMonitor plainMonitor ''c1'' rerun_c1)) = Absent \<and>
   getCellMonitor ''c1'' (after (onCellRemoved plainMonitor ''c1'' rerun_c1)) = Absent \<and>
   getCellMonitor ''c1'' (after (startCellMonitor plainMonitor ''c1'' rerun_c1)) = Monitor 1 \<and>
   reachable plainMonitor hidden_rerun_c1 \<and>
   display_mode hidden_rerun_c1 = hidden \<and>
   cellmonitors (after (onSparkJobStart plainMonitor ''u2'' job7 hidden_rerun_c1)) = [(''c1'', 0)]"
proof -
  have f: "getCurrentlyActiveCell rerun_c1 = Some ''c1''" "display_mode rerun_c1 = shown"
    "getCellMonitor ''c1'' rerun_c1 = Monitor 0"
    "numCellsExecuted (listener rerun_c1) > cellExecCountSinceSparkJobStart rerun_c1"
    "length (heap rerun_c1) = 1"
    by (simp_all add: rerun_c1_def getCurrentlyActiveCell_def getCellMonitor_def property_def
          shown_c1_fields cell_c1_def)
  have r: "reachable plainMonitor hidden_rerun_c1"
    unfolding hidden_rerun_c1_def using reachable_rerun_c1 by (rule reachable.hidden)
  from one_monitor_per_cell [OF reachable_rerun_c1, of "''c1''" "''u2''" 0 job7 "''c1''" 0 "''c1''" 0]
       one_monitor_per_cell [OF r, of "''c1''" "''u2''" 0 job7 "''c1''" 0 "''c1''" 0] f r
  show ?thesis
    by (simp add: Let_def reachable_rerun_c1 hidden_rerun_c1_fields Object_prototype_def)
qed

subsection \<open>C8: stopCellMonitor twice, and for an id with no monitor\<close>

text \<open>
  Claim C8 says that for every id \<open>stopCellMonitor(id)\<close> called twice in a row leaves
  what one call leaves, and that for an id with no monitor the call does nothing. The
  dictionary of monitors is a plain object, and the test \<open>if (this.cellmonitors[id])\<close>
  also finds the members it inherits from \<open>Object.prototype\<close>: on a new engine, which has
  no monitor at all, \<open>stopCellMonitor('constructor')\<close> ends in a \<open>TypeError\<close>, because
  the inherited member has no \<open>removeDisplay\<close>. In general, in a state with no monitor
  for \<open>id\<close>, and so for the second of two calls in a row, the call returns with the
  state as it was exactly when \<open>id\<close> is not the name of an inherited member, and throws
  otherwise. In every case the second call leaves the state the first one left.
\<close>

theorem stopCellMonitor_inherited_id_throws:
  "getCellMonitor ''constructor'' (constructor l :: 'm SparkMonitor) = Inherited \<and>
   cellmonitors (constructor l :: 'm SparkMonitor) = [] \<and>
   stopCellMonitor (CM :: 'm CellMonitor) ''constructor'' (constructor l)
     = Throws TypeError (constructor l) \<and>
   stopCellMonitor CM i (s\<lparr>cellmonitors := AList.delete i (cellmonitors s)\<rparr>)
     = (if i \<in> set Object_prototype
        then Throws TypeError (s\<lparr>cellmonitors := AList.delete i (cellmonitors s)\<rparr>)
        else Returns (s\<lparr>cellmonitors := AList.delete i (cellmonitors s)\<rparr>)) \<and>
   stopCellMonitor CM i (after (stopCellMonitor CM i s))
     = (if i \<in> set Object_prototype
        then Throws TypeError (after (stopCellMonitor CM i s))
        else Returns (after (stopCellMonitor CM i s)))"
proof -
  have new: "getCellMonitor ''constructor'' (constructor l :: 'm SparkMonitor) = Inherited"
    "cellmonitors (constructor l :: 'm SparkMonitor) = []"
    by (simp_all add: getCellMonitor_def property_def constructor_def Object_prototype_def)
  have thrown: "stopCellMonitor CM ''constructor'' (constructor l) = Throws TypeError (constructor l)"
    using new(1) by (rule stopCellMonitor_inherited)
  have none: "stopCellMonitor CM i t
     = (if i \<in> set Object_prototype then Throws TypeError t else Returns t)"
    if "getCellMonitor i t = (if i \<in> set Object_prototype then Inherited else Absent)"
    for t :: "'m SparkMonitor"
    using that by (simp add: stopCellMonitor_inherited stopCellMonitor_no_monitor)
  have "getCellMonitor i (s\<lparr>cellmonitors := AList.delete i (cellmonitors s)\<rparr>)
          = (if i \<in> set Object_prototype then Inherited else Absent)"
    by (simp add: getCellMonitor_def)
  from none [OF this] new thrown none [OF getCellMonitor_stop [of i CM s]]
  show ?thesis
    by (intro conjI)
qed

subsection \<open>C9: executor added\<close>

text \<open>
  Claim C9. \<open>onSparkExecutorAdded\<close> sets \<open>totalCores\<close> to the event's value and adds
  exactly one to \<open>numExecutors\<close> in every state, with or without a running cell or a
  monitor for it; the event is forwarded only when the running cell has a monitor. The
  two updates come first: they are also made when the forwarding that follows ends in a
  \<open>TypeError\<close>, which it does exactly when the id of the running cell is the name of a
  member of \<open>Object.prototype\<close>. While the mode is \<open>shown\<close>, an executor-added message
  reaches this handler through \<open>handleMessage\<close>.
\<close>

theorem onSparkExecutorAdded_counts:
  "totalCores (after (onSparkExecutorAdded CM d s)) = data_totalCores d \<and>
   numExecutors (after (onSparkExecutorAdded CM d s)) = numExecutors s + 1 \<and>
   trace (after (onSparkExecutorAdded CM d s)) =
     trace s @ (case getCurrentlyActiveCell s of
                  None \<Rightarrow> []
                | Some c \<Rightarrow> (case getCellMonitor c s of
                               Monitor a \<Rightarrow> [Forward a ExecutorAdded d]
                             | _ \<Rightarrow> [])) \<and>
   onSparkExecutorAdded CM d s =
     (case getCurrentlyActiveCell s of
        None \<Rightarrow> Returns (after (onSparkExecutorAdded CM d s))
      | Some c \<Rightarrow> if getCellMonitor c s = Inherited
                  then Throws TypeError (after (onSparkExecutorAdded CM d s))
                  else Returns (after (onSparkExecutorAdded CM d s))) \<and>
   handleMessage CM u \<lparr>msgtype = ''fromscala'', msg = d\<lparr>data_msgtype := ''sparkExecutorAdded''\<rparr>\<rparr>
       (s\<lparr>display_mode := shown\<rparr>)
     = onSparkExecutorAdded CM (d\<lparr>data_msgtype := ''sparkExecutorAdded''\<rparr>)
         (s\<lparr>display_mode := shown\<rparr>)"
  by (simp add: onSparkExecutorAdded_def forward_def call_event_def getCurrentlyActiveCell_def
        getCellMonitor_def Let_def handleMessage_def dispatch_def
        split: option.split lookup.split)

subsection \<open>C10: the executor count has no lower bound\<close>

text \<open>
  Claim C10. \<open>onSparkExecutorRemoved\<close> takes exactly one from \<open>numExecutors\<close> in every
  state, so one executor-removed event on a new engine leaves \<open>numExecutors\<close> at -1, and
  \<open>n\<close> of them at \<open>-n\<close>. The new engine shows its displays, so the event reaches the
  handler through \<open>handleMessage\<close>.
\<close>

theorem onSparkExecutorRemoved_goes_negative:
  "numExecutors (after (onSparkExecutorRemoved CM d s)) = numExecutors s - 1 \<and>
   numExecutors (after (onSparkExecutorRemoved CM d (constructor l))) = - 1 \<and>
   numExecutors (((\<lambda>s. after (onSparkExecutorRemoved CM d s)) ^^ n) (constructor l)) = - int n \<and>
   handleMessage CM u \<lparr>msgtype = ''fromscala'', msg = d\<lparr>data_msgtype := ''sparkExecutorRemoved''\<rparr>\<rparr>
       (constructor l)
     = onSparkExecutorRemoved CM (d\<lparr>data_msgtype := ''sparkExecutorRemoved''\<rparr>)
         (constructor l)"
proof -
  have "numExecutors (constructor l :: 'a SparkMonitor) = 0"
    and "display_mode (constructor l :: 'a SparkMonitor) = shown"
    by (simp_all add: constructor_def)
  then show ?thesis
    by (simp add: executorRemoved_fields executorRemoved_iterated handleMessage_def
          dispatch_def)
qed

end
